theory Spec2Isabelle
  imports Complex_Main "HOL-Library.Sublist"
begin

section \<open>Python values and builtins used by the program\<close>

text \<open>
  Strings are \<open>char list\<close>s; a character is one byte, so the two non-ASCII characters
  of the sources (the bullet of the fallback summary and the dash of the system prompt)
  are their UTF-8 bytes. Floats are idealised: a float is either \<open>NaN\<close> (which pandas
  and numpy return for a statistic of too few samples) or a real number \<open>Fin x\<close>, with
  exact arithmetic (no rounding error, no overflow, no infinities). A dictionary value
  \<open>None\<close> and an absent result are \<open>None\<close> of an option type; a raised exception is
  the left injection of a sum type.
\<close>

datatype pyfloat = NaN | Fin real

datatype py_error = KeyError string

text \<open>Comparisons with NaN are false; \<open>bool(nan)\<close> is true.\<close>

fun flt :: "pyfloat \<Rightarrow> real \<Rightarrow> bool" where
  "flt NaN c = False"
| "flt (Fin x) c = (x < c)"

fun fgt :: "pyfloat \<Rightarrow> real \<Rightarrow> bool" where
  "fgt NaN c = False"
| "fgt (Fin x) c = (c < x)"

fun fabs :: "pyfloat \<Rightarrow> pyfloat" where
  "fabs NaN = NaN"
| "fabs (Fin x) = Fin \<bar>x\<bar>"

fun fmul :: "pyfloat \<Rightarrow> real \<Rightarrow> pyfloat" where
  "fmul NaN c = NaN"
| "fmul (Fin x) c = Fin (x * c)"

fun fdiv :: "pyfloat \<Rightarrow> pyfloat \<Rightarrow> pyfloat" where
  "fdiv (Fin x) (Fin y) = Fin (x / y)"
| "fdiv _ _ = NaN"

fun truthy :: "pyfloat \<Rightarrow> bool" where
  "truthy NaN = True"
| "truthy (Fin x) = (x \<noteq> 0)"

text \<open>\<open>round(x, nd)\<close>: to the nearest multiple of \<open>10 ^ - nd\<close>, ties to even.\<close>

definition round_half_even :: "real \<Rightarrow> int" where
  "round_half_even x =
     (let f = \<lfloor>x\<rfloor>; d = x - of_int f
      in if d < 1 / 2 then f else if 1 / 2 < d then f + 1
         else if even f then f else f + 1)"

definition py_round :: "real \<Rightarrow> nat \<Rightarrow> real" where
  "py_round x nd = of_int (round_half_even (x * 10 ^ nd)) / 10 ^ nd"

fun fround :: "pyfloat \<Rightarrow> nat \<Rightarrow> pyfloat" where
  "fround NaN nd = NaN"
| "fround (Fin x) nd = Fin (py_round x nd)"

text \<open>
  How Python prints a float is a builtin of the language, not code of the repository:
  the conversions are parameters of the model. \<open>str_float\<close> is \<open>str(x)\<close> (what
  \<open>f"{x}"\<close> inserts), \<open>fmt_f nd\<close> is the format \<open>:.ndf\<close>, \<open>fmt_plus_f nd\<close> is
  \<open>:+.ndf\<close>.
\<close>

record py_fmt =
  str_float :: "pyfloat \<Rightarrow> string"
  fmt_f :: "nat \<Rightarrow> pyfloat \<Rightarrow> string"
  fmt_plus_f :: "nat \<Rightarrow> pyfloat \<Rightarrow> string"

text \<open>\<open>str(n)\<close> for an integer.\<close>

definition digit_char :: "nat \<Rightarrow> char" where
  "digit_char d = ''0123456789'' ! d"

fun str_nat_aux :: "nat \<Rightarrow> nat \<Rightarrow> string \<Rightarrow> string" where
  "str_nat_aux 0 n acc = acc"
| "str_nat_aux (Suc fuel) n acc =
     (if n < 10 then digit_char n # acc
      else str_nat_aux fuel (n div 10) (digit_char (n mod 10) # acc))"

definition str_nat :: "nat \<Rightarrow> string" where
  "str_nat n = str_nat_aux (Suc n) n []"

definition str_int :: "int \<Rightarrow> string" where
  "str_int i = (if i < 0 then CHR ''-'' # str_nat (nat (- i)) else str_nat (nat i))"

text \<open>String methods: \<open>in\<close>, \<open>split('\n')\<close>, \<open>join\<close>, \<open>strip\<close>, \<open>lower\<close>, \<open>upper\<close>.\<close>

fun py_in :: "string \<Rightarrow> string \<Rightarrow> bool" where
  "py_in sub [] = (sub = [])"
| "py_in sub (c # cs) = (prefix sub (c # cs) \<or> py_in sub cs)"

definition nl :: string where
  "nl = [CHR 0x0A]"

fun py_split_nl :: "string \<Rightarrow> string list" where
  "py_split_nl [] = [[]]"
| "py_split_nl (c # cs) =
     (if c = CHR 0x0A then [] # py_split_nl cs
      else (case py_split_nl cs of
              [] \<Rightarrow> [[c]]
            | l # ls \<Rightarrow> (c # l) # ls))"

fun py_join :: "string \<Rightarrow> string list \<Rightarrow> string" where
  "py_join sep [] = []"
| "py_join sep [x] = x"
| "py_join sep (x # y # ys) = x @ sep @ py_join sep (y # ys)"

text \<open>
  The whitespace of \<open>str.strip()\<close> among the ASCII characters: tab to carriage return,
  the four separators 0x1C to 0x1F, and the space.
\<close>

definition is_space :: "char \<Rightarrow> bool" where
  "is_space c = (c \<in> set [CHR 0x09, CHR 0x0A, CHR 0x0B, CHR 0x0C, CHR 0x0D,
                           CHR 0x1C, CHR 0x1D, CHR 0x1E, CHR 0x1F, CHR 0x20])"

definition py_strip :: "string \<Rightarrow> string" where
  "py_strip s = rev (dropWhile is_space (rev (dropWhile is_space s)))"

definition lower_char :: "char \<Rightarrow> char" where
  "lower_char c =
     (case map_of (zip ''ABCDEFGHIJKLMNOPQRSTUVWXYZ'' ''abcdefghijklmnopqrstuvwxyz'') c of
        None \<Rightarrow> c | Some d \<Rightarrow> d)"

definition upper_char :: "char \<Rightarrow> char" where
  "upper_char c =
     (case map_of (zip ''abcdefghijklmnopqrstuvwxyz'' ''ABCDEFGHIJKLMNOPQRSTUVWXYZ'') c of
        None \<Rightarrow> c | Some d \<Rightarrow> d)"

definition py_lower :: "string \<Rightarrow> string" where
  "py_lower s = map lower_char s"

definition py_upper :: "string \<Rightarrow> string" where
  "py_upper s = map upper_char s"

text \<open>\<open>d.get(k, default)\<close> on a dictionary of strings.\<close>

definition dict_get :: "(string \<rightharpoonup> string) \<Rightarrow> string \<Rightarrow> string \<Rightarrow> string" where
  "dict_get d k dflt = (case d k of None \<Rightarrow> dflt | Some v \<Rightarrow> v)"

section \<open>The preference engine (class PreferenceEngine)\<close>

record engine =
  risk_tolerance :: string
  time_horizon :: string
  risk_behavior :: string

definition PreferenceEngine :: "string \<Rightarrow> string \<Rightarrow> string \<Rightarrow> engine" where
  "PreferenceEngine rt th rb = \<lparr>risk_tolerance = rt, time_horizon = th, risk_behavior = rb\<rparr>"

record volatility_frame =
  emphasis :: string
  concern_language :: string
  positive_language :: string
  threshold_view :: string

record time_frame =
  data_focus :: string
  volatility_impact :: string
  recovery_concern :: string
  relevant_metrics :: string

record behavior_frame =
  perspective :: string
  decision_frame :: string
  uncertainty_view :: string
  trade_off_priority :: string

text \<open>The three dictionaries of \<open>_init_interpretation_contexts\<close>, as lookups.\<close>

definition volatility_frames :: "string \<Rightarrow> volatility_frame option" where
  "volatility_frames k =
     (if k = ''Low'' then Some
        \<lparr>emphasis = ''downside protection and capital preservation'',
         concern_language = ''risk exposure, potential losses, drawdown severity'',
         positive_language = ''stability, predictability, preservation'',
         threshold_view = ''conservative risk bounds''\<rparr>
      else if k = ''Medium'' then Some
        \<lparr>emphasis = ''balanced growth with managed volatility'',
         concern_language = ''portfolio fluctuations, risk-adjusted returns'',
         positive_language = ''growth opportunities, reasonable stability'',
         threshold_view = ''moderate risk tolerance''\<rparr>
      else if k = ''High'' then Some
        \<lparr>emphasis = ''return potential and growth opportunities'',
         concern_language = ''opportunity cost, market dynamics'',
         positive_language = ''upside capture, aggressive growth, market opportunities'',
         threshold_view = ''elevated risk acceptance''\<rparr>
      else None)"

definition time_frames :: "string \<Rightarrow> time_frame option" where
  "time_frames k =
     (if k = ''Short-term (<1yr)'' then Some
        \<lparr>data_focus = ''recent 3-6 month trends and near-term momentum'',
         volatility_impact = ''near-term price fluctuations and liquidity'',
         recovery_concern = ''short recovery windows are critical'',
         relevant_metrics = ''recent performance, current trends''\<rparr>
      else if k = ''Long-term (>1yr)'' then Some
        \<lparr>data_focus = ''multi-year patterns and fundamental stability'',
         volatility_impact = ''long-term trajectory smooths short-term noise'',
         recovery_concern = ''extended recovery periods are acceptable'',
         relevant_metrics = ''sustained trends, sector fundamentals''\<rparr>
      else None)"

definition behavior_frames :: "string \<Rightarrow> behavior_frame option" where
  "behavior_frames k =
     (if k = ''Risk-averse'' then Some
        \<lparr>perspective = ''conservative with emphasis on protection'',
         decision_frame = ''what could go wrong and how to avoid losses'',
         uncertainty_view = ''threats to be mitigated'',
         trade_off_priority = ''safety over growth''\<rparr>
      else if k = ''Risk-seeking'' then Some
        \<lparr>perspective = ''opportunistic with emphasis on potential'',
         decision_frame = ''what upside exists and how to capture gains'',
         uncertainty_view = ''opportunities to be seized'',
         trade_off_priority = ''growth over safety''\<rparr>
      else None)"

record interpretive_context =
  ctx_volatility_emphasis :: string
  ctx_concern_language :: string
  ctx_positive_language :: string
  ctx_data_focus :: string
  ctx_volatility_interpretation :: string
  ctx_recovery_perspective :: string
  ctx_analysis_perspective :: string
  ctx_decision_framing :: string
  ctx_trade_off_priority :: string

text \<open>A lookup \<open>d[k]\<close> with a key the dictionary does not have raises KeyError.\<close>

definition get_interpretive_context :: "engine \<Rightarrow> py_error + interpretive_context" where
  "get_interpretive_context e =
     (case volatility_frames (risk_tolerance e) of
        None \<Rightarrow> Inl (KeyError (risk_tolerance e))
      | Some vol_frame \<Rightarrow>
     (case time_frames (time_horizon e) of
        None \<Rightarrow> Inl (KeyError (time_horizon e))
      | Some time_frame \<Rightarrow>
     (case behavior_frames (risk_behavior e) of
        None \<Rightarrow> Inl (KeyError (risk_behavior e))
      | Some behavior_frame \<Rightarrow> Inr
         \<lparr>ctx_volatility_emphasis = emphasis vol_frame,
          ctx_concern_language = concern_language vol_frame,
          ctx_positive_language = positive_language vol_frame,
          ctx_data_focus = data_focus time_frame,
          ctx_volatility_interpretation = volatility_impact time_frame,
          ctx_recovery_perspective = recovery_concern time_frame,
          ctx_analysis_perspective = perspective behavior_frame,
          ctx_decision_framing = decision_frame behavior_frame,
          ctx_trade_off_priority = trade_off_priority behavior_frame\<rparr>)))"

definition get_prompt_guidance :: "engine \<Rightarrow> py_error + string" where
  \<open>get_prompt_guidance e =
     (case get_interpretive_context e of
        Inl err \<Rightarrow> Inl err
      | Inr c \<Rightarrow> Inr (concat
         [nl,
          ''PREFERENCE-DRIVEN ANALYSIS GUIDANCE:'', nl,
          nl,
          ''Risk Profile Context:'', nl,
          ''- The user has '', py_lower (risk_tolerance e), '' risk tolerance with '',
            py_lower (risk_behavior e), '' behavior'', nl,
          ''- Frame volatility and uncertainty in terms of: '', ctx_volatility_emphasis c, nl,
          ''- When discussing risks, emphasize: '', ctx_concern_language c, nl,
          ''- When discussing opportunities, emphasize: '', ctx_positive_language c, nl,
          ''- Trade-off priority: '', ctx_trade_off_priority c, nl,
          nl,
          ''Time Horizon Context:'', nl,
          ''- Investment horizon: '', py_lower (time_horizon e), nl,
          ''- Focus analysis on: '', ctx_data_focus c, nl,
          ''- Interpret volatility as: '', ctx_volatility_interpretation c, nl,
          ''- Recovery time perspective: '', ctx_recovery_perspective c, nl,
          nl,
          ''Analysis Perspective:'', nl,
          ''- Adopt a '', ctx_analysis_perspective c, '' viewpoint'', nl,
          ''- Frame decision considerations around: '', ctx_decision_framing c, nl,
          nl,
          ''CRITICAL: These preferences should shape HOW you interpret and present data,'', nl,
          ''not just be restated. For example, the same 25% volatility should be framed'', nl,
          ''as "significant downside risk" for risk-averse users but "opportunity for'', nl,
          ''outsized returns" for risk-seeking users. The data is the same; the'', nl,
          ''interpretation changes based on user context.'', nl]))\<close>

definition interpret_volatility :: "py_fmt \<Rightarrow> engine \<Rightarrow> pyfloat \<Rightarrow> py_error + string" where
  "interpret_volatility fm e vol =
     (case volatility_frames (risk_tolerance e) of
        None \<Rightarrow> Inl (KeyError (risk_tolerance e))
      | Some vol_frame \<Rightarrow> Inr
         (if risk_tolerance e = ''Low'' then
            (if flt vol 15 then
               str_float fm vol @ ''% volatility indicates stable, predictable behavior aligned with conservative objectives''
             else if flt vol 25 then
               str_float fm vol @ ''% volatility suggests price swings that may exceed comfort thresholds for capital preservation''
             else
               str_float fm vol @ ''% volatility represents substantial fluctuation risk unsuitable for conservative portfolios'')
          else if risk_tolerance e = ''High'' then
            (if flt vol 15 then
               str_float fm vol @ ''% volatility suggests limited price movement, constraining potential for aggressive returns''
             else if flt vol 25 then
               str_float fm vol @ ''% volatility provides meaningful opportunity for returns while remaining investable''
             else
               str_float fm vol @ ''% volatility creates significant return potential during favorable market phases'')
          else
            (if flt vol 15 then
               str_float fm vol @ ''% volatility indicates low-risk behavior suitable for core holdings''
             else if flt vol 25 then
               str_float fm vol @ ''% volatility is typical for balanced growth strategies''
             else
               str_float fm vol @ ''% volatility exceeds typical balanced portfolio guidelines'')))"

definition interpret_drawdown :: "py_fmt \<Rightarrow> engine \<Rightarrow> pyfloat \<Rightarrow> string" where
  "interpret_drawdown fm e dd =
     (let dd_abs = fabs dd in
      if risk_behavior e = ''Risk-averse'' then
        (if flt dd_abs 10 then
           fmt_f fm 1 dd @ ''% maximum drawdown indicates limited downside exposure''
         else if flt dd_abs 20 then
           fmt_f fm 1 dd @ ''% maximum drawdown represents notable capital risk requiring consideration''
         else
           fmt_f fm 1 dd @ ''% maximum drawdown signals severe downside exposure posing preservation challenges'')
      else
        (if flt dd_abs 10 then
           fmt_f fm 1 dd @ ''% maximum drawdown suggests constrained volatility limiting return potential''
         else if flt dd_abs 20 then
           fmt_f fm 1 dd @ ''% maximum drawdown is typical for growth-oriented investments''
         else
           fmt_f fm 1 dd @ ''% maximum drawdown indicates high volatility characteristic of aggressive positions''))"

definition interpret_beta :: "py_fmt \<Rightarrow> engine \<Rightarrow> pyfloat \<Rightarrow> string" where
  "interpret_beta fm e b =
     (let sensitivity =
            (if flt b 0.8 then ''below-market volatility''
             else if flt b 1.2 then ''market-like volatility''
             else ''above-market volatility'')
      in
      if risk_behavior e = ''Risk-averse'' then
        (if flt b 0.8 then
           ''Beta of '' @ fmt_f fm 2 b @ '' indicates '' @ sensitivity @ '', providing defensive characteristics''
         else if flt b 1.2 then
           ''Beta of '' @ fmt_f fm 2 b @ '' indicates '' @ sensitivity @ '', tracking market movements closely''
         else
           ''Beta of '' @ fmt_f fm 2 b @ '' indicates '' @ sensitivity @ '', amplifying market downturns'')
      else
        (if flt b 0.8 then
           ''Beta of '' @ fmt_f fm 2 b @ '' indicates '' @ sensitivity @ '', limiting upside capture potential''
         else if flt b 1.2 then
           ''Beta of '' @ fmt_f fm 2 b @ '' indicates '' @ sensitivity @ '', participating in market gains proportionally''
         else
           ''Beta of '' @ fmt_f fm 2 b @ '' indicates '' @ sensitivity @ '', amplifying market upside''))"

definition interpret_risk_metric ::
    "py_fmt \<Rightarrow> engine \<Rightarrow> string \<Rightarrow> pyfloat \<Rightarrow> py_error + string" where
  "interpret_risk_metric fm e metric_name v =
     (if metric_name = ''volatility'' then interpret_volatility fm e v
      else if metric_name = ''drawdown'' then Inr (interpret_drawdown fm e v)
      else if metric_name = ''beta'' then Inr (interpret_beta fm e v)
      else Inr (metric_name @ '': '' @ str_float fm v))"

section \<open>The financial data provider (class FinancialDataProvider)\<close>

text \<open>
  A price history is the rows of the data frame, oldest first: date, closing price and
  volume. Dates are day numbers; within one history they are pairwise different (the
  index of the frame). A series is a list of dated values.
\<close>

type_synonym date = nat

record bar =
  bar_date :: date
  bar_close :: real
  bar_volume :: real

type_synonym series = "(date \<times> real) list"

definition close_series :: "bar list \<Rightarrow> series" where
  "close_series hist = map (\<lambda>b. (bar_date b, bar_close b)) hist"

text \<open>
  \<open>s.pct_change().dropna()\<close>: the first row has no predecessor and is dropped, every
  other row holds \<open>p[i] / p[i-1] - 1\<close>.
\<close>

fun pct_change :: "series \<Rightarrow> series" where
  "pct_change (a # b # rest) = (fst b, snd b / snd a - 1) # pct_change (b # rest)"
| "pct_change [a] = []"
| "pct_change [] = []"

definition mean :: "real list \<Rightarrow> real" where
  "mean xs = sum_list xs / real (length xs)"

text \<open>\<open>Series.std()\<close>: sample standard deviation (ddof = 1), NaN below two samples.\<close>

definition series_std :: "real list \<Rightarrow> pyfloat" where
  "series_std xs =
     (if length xs < 2 then NaN
      else Fin (sqrt (sum_list (map (\<lambda>x. (x - mean xs) ^ 2) xs) / real (length xs - 1))))"

text \<open>\<open>np.cov(xs, ys)[0][1]\<close>: sample covariance (ddof = 1), NaN below two samples.\<close>

definition np_cov :: "real list \<Rightarrow> real list \<Rightarrow> pyfloat" where
  "np_cov xs ys =
     (if length xs < 2 then NaN
      else Fin (sum_list (map (\<lambda>(x, y). (x - mean xs) * (y - mean ys)) (zip xs ys))
                / real (length xs - 1)))"

text \<open>\<open>np.var(ys)\<close>: population variance (ddof = 0), NaN of an empty series.\<close>

definition np_var :: "real list \<Rightarrow> pyfloat" where
  "np_var ys =
     (if ys = [] then NaN
      else Fin (sum_list (map (\<lambda>y. (y - mean ys) ^ 2) ys) / real (length ys)))"

fun cumprod_from :: "real \<Rightarrow> real list \<Rightarrow> real list" where
  "cumprod_from acc [] = []"
| "cumprod_from acc (x # xs) = (acc * x) # cumprod_from (acc * x) xs"

definition cumprod :: "real list \<Rightarrow> real list" where
  "cumprod xs = cumprod_from 1 xs"

fun expanding_max_from :: "real \<Rightarrow> real list \<Rightarrow> real list" where
  "expanding_max_from m [] = []"
| "expanding_max_from m (x # xs) = max m x # expanding_max_from (max m x) xs"

fun expanding_max :: "real list \<Rightarrow> real list" where
  "expanding_max [] = []"
| "expanding_max (x # xs) = x # expanding_max_from x xs"

fun series_min :: "real list \<Rightarrow> pyfloat" where
  "series_min [] = NaN"
| "series_min (x # xs) = Fin (fold min xs x)"

text \<open>
  \<open>s.reindex(idx).dropna()\<close>: the rows of \<open>s\<close> at the dates of \<open>idx\<close>, in the order of
  \<open>idx\<close>; a date that \<open>s\<close> does not have gives NaN and is dropped.
\<close>

definition reindex_dropna :: "series \<Rightarrow> date list \<Rightarrow> series" where
  "reindex_dropna s idx =
     concat (map (\<lambda>d. case map_of s d of None \<Rightarrow> [] | Some v \<Rightarrow> [(d, v)]) idx)"

text \<open>
  The beta of \<open>_compute_risk_metrics\<close> before rounding. The benchmark argument is the
  closing series of SPY, or \<open>None\<close> when fetching it raised: then the \<open>except\<close> branch
  sets beta to \<open>None\<close>.
\<close>

definition aligned_returns :: "series \<Rightarrow> series \<Rightarrow> series" where
  "aligned_returns returns market_returns = reindex_dropna returns (map fst market_returns)"

definition aligned_market :: "series \<Rightarrow> series \<Rightarrow> series" where
  "aligned_market returns market_returns =
     reindex_dropna market_returns (map fst (aligned_returns returns market_returns))"

definition compute_beta :: "series \<Rightarrow> series option \<Rightarrow> pyfloat option" where
  "compute_beta returns spy =
     (case spy of
        None \<Rightarrow> None
      | Some spy_close \<Rightarrow>
          (let market_returns = pct_change spy_close;
               ar = map snd (aligned_returns returns market_returns);
               am = map snd (aligned_market returns market_returns);
               covariance = np_cov ar am;
               market_variance = np_var am
           in Some (if fgt market_variance 0 then fdiv covariance market_variance else Fin 1.0)))"

text \<open>The loop over \<open>enumerate(drawdown)\<close> that collects the recovery periods.\<close>

fun recovery_loop :: "nat \<Rightarrow> real list \<Rightarrow> bool \<Rightarrow> nat option \<Rightarrow> nat list \<Rightarrow> nat list" where
  "recovery_loop i [] in_drawdown drawdown_start recovery_periods = recovery_periods"
| "recovery_loop i (val # rest) in_drawdown drawdown_start recovery_periods =
     (if val < - 0.05 \<and> \<not> in_drawdown then
        recovery_loop (i + 1) rest True (Some i) recovery_periods
      else if val \<ge> - 0.01 \<and> in_drawdown then
        recovery_loop (i + 1) rest False drawdown_start
          (case drawdown_start of
             None \<Rightarrow> recovery_periods
           | Some s \<Rightarrow> recovery_periods @ [i - s])
      else recovery_loop (i + 1) rest in_drawdown drawdown_start recovery_periods)"

definition risk_class_of :: "pyfloat \<Rightarrow> string" where
  "risk_class_of volatility =
     (if flt volatility 15 then ''Low''
      else if flt volatility 25 then ''Moderate''
      else ''High'')"

record risk_metrics =
  volatility_annual :: pyfloat
  max_drawdown :: pyfloat
  beta :: "pyfloat option"
  avg_recovery_days :: "int option"
  risk_classification :: string
  sharp_moves_count :: nat

definition annual_volatility :: "real list \<Rightarrow> pyfloat" where
  "annual_volatility returns = fmul (fmul (series_std returns) (sqrt 252)) 100"

definition drawdown_series :: "real list \<Rightarrow> real list" where
  "drawdown_series returns =
     (let cumulative = cumprod (map (\<lambda>r. 1 + r) returns);
          running_max = expanding_max cumulative
      in map (\<lambda>(c, m). (c - m) / m) (zip cumulative running_max))"

definition compute_risk_metrics :: "bar list \<Rightarrow> series option \<Rightarrow> risk_metrics" where
  "compute_risk_metrics hist spy =
     (let returns = pct_change (close_series hist);
          volatility = annual_volatility (map snd returns);
          drawdown = drawdown_series (map snd returns);
          max_dd = fmul (series_min drawdown) 100;
          beta_raw = compute_beta returns spy;
          recovery_periods = recovery_loop 0 drawdown False None [];
          avg_recovery =
            (if recovery_periods = [] then None
             else Some (int (sum_list recovery_periods div length recovery_periods)))
      in \<lparr>volatility_annual = fround volatility 1,
          max_drawdown = fround max_dd 1,
          beta = (case beta_raw of
                    None \<Rightarrow> None
                  | Some b \<Rightarrow> if truthy b then Some (fround b 2) else None),
          avg_recovery_days = avg_recovery,
          risk_classification = risk_class_of volatility,
          sharp_moves_count = length (filter (\<lambda>r. \<bar>r\<bar> > 0.05) (map snd returns))\<rparr>)"

record performance =
  return_1m :: "pyfloat option"
  return_3m :: "pyfloat option"
  return_6m :: "pyfloat option"
  return_1y :: "pyfloat option"
  vs_sp500_1y :: "pyfloat option"

text \<open>\<open>prices.iloc[-days]\<close> is the element \<open>days\<close> places from the end.\<close>

definition iloc_neg :: "real list \<Rightarrow> nat \<Rightarrow> real" where
  "iloc_neg xs k = xs ! (length xs - k)"

text \<open>One round of the loop over the four periods of \<open>_compute_performance\<close>.\<close>

definition period_return :: "real list \<Rightarrow> nat \<Rightarrow> pyfloat option" where
  "period_return prices days =
     (if length prices \<ge> days then
        Some (Fin (py_round ((iloc_neg prices 1 / iloc_neg prices days - 1) * 100) 2))
      else None)"

definition compute_performance :: "bar list \<Rightarrow> series option \<Rightarrow> performance" where
  "compute_performance hist spy_opt =
     (let prices = map bar_close hist;
          vs_market =
            (case spy_opt of
               None \<Rightarrow> None
             | Some spy_series \<Rightarrow>
                 (let spy = map snd spy_series in
                  if length spy \<ge> 252 \<and> length prices \<ge> 252 then
                    (let stock_annual = (iloc_neg prices 1 / iloc_neg prices 252 - 1) * 100;
                         spy_annual = (iloc_neg spy 1 / iloc_neg spy 252 - 1) * 100
                     in Some (Fin (py_round (stock_annual - spy_annual) 2)))
                  else None))
      in \<lparr>return_1m = period_return prices 21,
          return_3m = period_return prices 63,
          return_6m = period_return prices 126,
          return_1y = period_return prices 252,
          vs_sp500_1y = vs_market\<rparr>)"

record trends =
  price_trend_3m :: string
  volume_trend :: string
  position_vs_50day_avg :: string

text \<open>\<open>xs.iloc[-a:]\<close> and \<open>xs.iloc[-a:-b]\<close>, for \<open>b \<le> a \<le> len(xs)\<close>.\<close>

definition iloc_tail :: "real list \<Rightarrow> nat \<Rightarrow> real list" where
  "iloc_tail xs a = drop (length xs - a) xs"

definition iloc_window :: "real list \<Rightarrow> nat \<Rightarrow> nat \<Rightarrow> real list" where
  "iloc_window xs a b = take (a - b) (drop (length xs - a) xs)"

definition analyze_trends :: "bar list \<Rightarrow> trends" where
  "analyze_trends hist =
     (let prices = map bar_close hist;
          volume = map bar_volume hist;
          price_trend =
            (if length prices \<ge> 126 then
               (let recent_avg = mean (iloc_tail prices 63);
                    prior_avg = mean (iloc_window prices 126 63)
                in if recent_avg > prior_avg * 1.05 then ''rising''
                   else if recent_avg < prior_avg * 0.95 then ''declining''
                   else ''stable'')
             else ''insufficient_data'');
          vol_trend =
            (if length volume \<ge> 63 then
               (let recent_vol = mean (iloc_tail volume 21);
                    prior_vol = mean (iloc_window volume 63 21)
                in if recent_vol > prior_vol * 1.2 then ''increasing''
                   else if recent_vol < prior_vol * 0.8 then ''decreasing''
                   else ''stable'')
             else ''insufficient_data'');
          sma_position =
            (if length prices \<ge> 50 then
               (let sma_50 = mean (iloc_tail prices 50);
                    current = iloc_neg prices 1
                in if current > sma_50 * 1.02 then ''above''
                   else if current < sma_50 * 0.98 then ''below''
                   else ''near'')
             else ''insufficient_data'')
      in \<lparr>price_trend_3m = price_trend,
          volume_trend = vol_trend,
          position_vs_50day_avg = sma_position\<rparr>)"

text \<open>
  What the program receives from outside during one request: the market data service
  (yfinance), the clock, the rule index (Chroma), and the two generation backends
  (Ollama and the local Hugging Face model). A call that raises is \<open>None\<close>.
  \<open>yf_history t p\<close> is \<open>yf.Ticker(t).history(period=p)\<close>, \<open>yf_info t\<close> is
  \<open>yf.Ticker(t).info\<close>; \<open>ollama_tags\<close> is the list of the model names of a
  status-200 answer of the tags endpoint; \<open>hf_generate p\<close> is the
  \<open>generated_text\<close> of the pipeline's first result.
\<close>

record ticker_info =
  info_sector :: "string option"
  info_industry :: "string option"
  info_dividendYield :: "real option"
  info_marketCap :: "int option"

record document =
  page_content :: string
  doc_source :: "string option"

record env =
  yf_history :: "string \<Rightarrow> string \<Rightarrow> bar list option"
  yf_info :: "string \<Rightarrow> ticker_info option"
  today :: string
  chroma_exists :: bool
  similarity_search :: "string \<Rightarrow> nat \<Rightarrow> document list option"
  ollama_tags :: "string list option"
  ollama_invoke :: "string \<Rightarrow> string \<Rightarrow> string option"
  hf_generate :: "string \<Rightarrow> string option"

record basic_info =
  sector :: string
  industry :: string
  current_price :: pyfloat
  dividend_yield :: pyfloat
  market_cap :: "string + int"

record stock_summary =
  ticker :: string
  period :: string
  fetch_date :: string
  basic :: basic_info
  risk :: risk_metrics
  perf :: performance
  trend :: trends

definition spy_close :: "env \<Rightarrow> series option" where
  "spy_close ev = map_option close_series (yf_history ev ''SPY'' ''1y'')"

definition get_stock_summary :: "env \<Rightarrow> string \<Rightarrow> string \<Rightarrow> stock_summary option" where
  "get_stock_summary ev tk per =
     (case yf_history ev tk per of
        None \<Rightarrow> None
      | Some hist \<Rightarrow>
     (case yf_info ev tk of
        None \<Rightarrow> None
      | Some info \<Rightarrow>
          if hist = [] then None
          else Some
            \<lparr>ticker = py_upper tk,
             period = per,
             fetch_date = today ev,
             basic =
               \<lparr>sector = (case info_sector info of None \<Rightarrow> ''Unknown'' | Some v \<Rightarrow> v),
                industry = (case info_industry info of None \<Rightarrow> ''Unknown'' | Some v \<Rightarrow> v),
                current_price = Fin (py_round (iloc_neg (map bar_close hist) 1) 2),
                dividend_yield =
                  (case info_dividendYield info of
                     None \<Rightarrow> Fin 0
                   | Some dy \<Rightarrow> if dy \<noteq> 0 then Fin (py_round (dy * 100) 2) else Fin 0),
                market_cap = (case info_marketCap info of None \<Rightarrow> Inl ''N/A'' | Some n \<Rightarrow> Inr n)\<rparr>,
             risk = compute_risk_metrics hist (spy_close ev),
             perf = compute_performance hist (spy_close ev),
             trend = analyze_trends hist\<rparr>))"

definition get_volatility_context :: "pyfloat \<Rightarrow> string \<Rightarrow> string" where
  "get_volatility_context volatility rt =
     (if rt = ''Low'' then
        (if flt volatility 15 then
           ''This low volatility suggests stable price behavior suitable for conservative portfolios''
         else if flt volatility 25 then
           ''This moderate volatility indicates notable price fluctuations that may exceed conservative risk thresholds''
         else ''This high volatility represents substantial price swings and significant downside risk'')
      else if rt = ''High'' then
        (if flt volatility 15 then
           ''This low volatility limits potential for outsized returns but provides stability''
         else if flt volatility 25 then
           ''This moderate volatility offers balanced opportunity for returns with manageable swings''
         else ''This high volatility creates opportunities for significant returns during favorable market conditions'')
      else
        (if flt volatility 15 then
           ''This low volatility provides predictable behavior with limited downside''
         else if flt volatility 25 then
           ''This moderate volatility is typical for diversified portfolios seeking balanced growth''
         else ''This high volatility exceeds typical balanced portfolio thresholds''))"

text \<open>
  \<open>format_for_llm\<close> appends to the list \<open>sections\<close> and joins it with newlines. The
  list is \<open>format_sections\<close>; each \<open>if\<close> of the source that guards one \<open>append\<close>
  is a list that is empty when the guard fails.
\<close>

definition format_sections :: "py_fmt \<Rightarrow> stock_summary \<Rightarrow> (string \<rightharpoonup> string) \<Rightarrow> string list" where
  \<open>format_sections fm summary preferences =
     [''=== STOCK PROFILE: '' @ ticker summary @ '' ==='',
      ''Analysis Period: '' @ period summary @ '' ending '' @ fetch_date summary @ nl,
      ''BASIC INFORMATION:'',
      ''  Sector: '' @ sector (basic summary),
      ''  Industry: '' @ industry (basic summary),
      ''  Current Price: $'' @ str_float fm (current_price (basic summary))]
     @ (if fgt (dividend_yield (basic summary)) 0
        then [''  Dividend Yield: '' @ str_float fm (dividend_yield (basic summary)) @ ''%'']
        else [])
     @ ['''',
        ''RISK CHARACTERISTICS:'',
        ''  Annualized Volatility: '' @ str_float fm (volatility_annual (risk summary))
           @ ''% ('' @ risk_classification (risk summary) @ '' risk)'',
        ''  Context: '' @ get_volatility_context (volatility_annual (risk summary))
                            (dict_get preferences ''risk_tolerance'' ''Medium''),
        ''  Maximum Drawdown (period): '' @ str_float fm (max_drawdown (risk summary)) @ ''%'']
     @ (case beta (risk summary) of
          None \<Rightarrow> []
        | Some b \<Rightarrow>
            if truthy b then [''  Beta (market sensitivity): '' @ str_float fm b] else [])
     @ (case avg_recovery_days (risk summary) of
          None \<Rightarrow> []
        | Some d \<Rightarrow>
            if d \<noteq> 0 then [''  Average Recovery Time: '' @ str_int d @ '' days''] else [])
     @ [''  Sharp Moves (>5%): '' @ str_nat (sharp_moves_count (risk summary)) @ '' days'',
        '''',
        ''HISTORICAL PERFORMANCE:'']
     @ (case return_1m (perf summary) of
          None \<Rightarrow> []
        | Some r \<Rightarrow> [''  1-Month Return: '' @ fmt_plus_f fm 2 r @ ''%''])
     @ (case return_3m (perf summary) of
          None \<Rightarrow> []
        | Some r \<Rightarrow> [''  3-Month Return: '' @ fmt_plus_f fm 2 r @ ''%''])
     @ (case return_1y (perf summary) of
          None \<Rightarrow> []
        | Some r \<Rightarrow> [''  1-Year Return: '' @ fmt_plus_f fm 2 r @ ''%''])
     @ (case vs_sp500_1y (perf summary) of
          None \<Rightarrow> []
        | Some v \<Rightarrow>
            [''  vs. S&P 500: '' @ (if fgt v 0 then ''outperformed'' else ''underperformed'')
              @ '' by '' @ fmt_f fm 2 (fabs v) @ ''%''])
     @ ['''',
        ''RECENT TRENDS:'',
        ''  3-Month Price Trend: '' @ price_trend_3m (trend summary),
        ''  Volume Trend: '' @ volume_trend (trend summary),
        ''  Position vs 50-Day Average: '' @ position_vs_50day_avg (trend summary)]\<close>

definition format_for_llm ::
    "py_fmt \<Rightarrow> stock_summary option \<Rightarrow> (string \<rightharpoonup> string) \<Rightarrow> string" where
  "format_for_llm fm summary_opt preferences =
     (case summary_opt of
        None \<Rightarrow> ''Unable to fetch stock data.''
      | Some summary \<Rightarrow> py_join nl (format_sections fm summary preferences))"

section \<open>The pipeline (module query data dss)\<close>

definition retrieve_rules :: "env \<Rightarrow> string \<Rightarrow> string \<Rightarrow> string \<times> string list" where
  "retrieve_rules ev query_text tk =
     (case similarity_search ev (query_text @ '' '' @ tk @ '' investment rules constraints'') 5 of
        None \<Rightarrow> ('''', [])
      | Some docs \<Rightarrow>
          if docs = [] then ('''', [])
          else
            (py_join (nl @ nl)
               (map (\<lambda>(i, doc). ''[Rule '' @ str_nat i @ ''] '' @ py_strip (page_content doc))
                    (zip [1 ..< Suc (length docs)] docs)),
             map (\<lambda>doc. case doc_source doc of None \<Rightarrow> ''Unknown'' | Some src \<Rightarrow> src) docs))"

definition dss_system_prompt :: string where
  \<open>dss_system_prompt = concat
     [''You are a financial decision support analyst. Your role is to provide structured, objective insights that help users understand investment characteristics and trade-offs'', [CHR 0xE2, CHR 0x80, CHR 0x94], ''NOT to recommend specific actions.'', nl,
      nl,
      ''        CORE PRINCIPLES:'', nl,
      ''        1. NEVER recommend "buy", "sell", or "hold"'', nl,
      ''        2. EXPLAIN implications and trade-offs, don't make judgments'', nl,
      ''        3. HIGHLIGHT alignments and misalignments with user preferences and rules'', nl,
      ''        4. FRAME historical data as contextual evidence, not predictions'', nl,
      ''        5. MAINTAIN exploratory tone: "This suggests..." not "You should..."'', nl,
      ''        '', nl,
      ''        ANALYSIS STRUCTURE:'', nl,
      ''        - Synthesize financial data with user preferences and constraints'', nl,
      ''        - Identify key considerations relevant to the user's question'', nl,
      ''        - Explain trade-offs between different characteristics'', nl,
      ''        - Flag any conflicts between stock characteristics and stated rules'', nl,
      ''        - Present information in a balanced, informative manner'', nl,
      ''        '']\<close>

definition build_dss_prompt :: "string \<Rightarrow> string \<Rightarrow> string \<Rightarrow> string \<Rightarrow> string" where
  \<open>build_dss_prompt query financial_context rules_context preference_guidance = concat
     [dss_system_prompt, nl,
      nl,
      ''        '', preference_guidance, nl,
      ''        '', nl,
      ''        FINANCIAL DATA:'', nl,
      ''        '', financial_context, nl,
      ''        '', nl,
      ''        '', rules_context, nl,
      ''        '', nl,
      ''        USER QUESTION:'', nl,
      ''        '', query, nl,
      ''        '', nl,
      ''        INSTRUCTIONS:'', nl,
      ''        Provide a comprehensive DSS analysis that:'', nl,
      ''        1. Directly addresses the user's question'', nl,
      ''        2. Interprets financial data through the lens of their preferences'', nl,
      ''        3. Highlights alignment or misalignment with any stated rules'', nl,
      ''        4. Explains relevant trade-offs and considerations'', nl,
      ''        5. Avoids making recommendations or decisions'', nl,
      ''        '', nl,
      ''        Your response should help the user understand the investment characteristics and how they relate to their stated preferences and constraints, while leaving the ultimate decision to them.'', nl,
      ''        '', nl,
      ''        ANALYSIS:'', nl,
      ''        '']\<close>

definition bullet :: string where
  "bullet = [CHR 0xE2, CHR 0x80, CHR 0xA2]"

definition generate_structured_fallback :: "string \<Rightarrow> string" where
  "generate_structured_fallback prompt =
     (let lns = py_split_nl prompt;
          response_parts =
            [''DECISION SUPPORT ANALYSIS:'',
             '''',
             ''Based on the provided financial data and your preferences, here are the key considerations:'',
             '''']
            @ map (\<lambda>line. bullet @ '' '' @ py_strip line)
                  (filter (\<lambda>line. py_in ''Annualized Volatility:'' line) lns)
            @ map (\<lambda>line. bullet @ '' '' @ py_strip line)
                  (filter (\<lambda>line. py_in ''Return'' line \<and> py_in ''%'' line) lns)
            @ map (\<lambda>line. bullet @ '' '' @ py_strip line)
                  (filter (\<lambda>line. py_in ''Sector:'' line) lns)
            @ ['''',
               ''This analysis is based on historical data and should be considered alongside your personal investment constraints and risk tolerance.'',
               '''',
               ''For more detailed analysis, please ensure Ollama is running with a language model installed.'']
      in py_join nl response_parts)"

definition check_ollama_running :: "env \<Rightarrow> bool \<times> string list" where
  "check_ollama_running ev =
     (case ollama_tags ev of
        None \<Rightarrow> (False, [])
      | Some models \<Rightarrow> (length models > 0, models))"

text \<open>
  The two \<open>try\<close> blocks of \<open>query_llm_with_dss_prompt\<close>: \<open>Some r\<close> when the block
  returns \<open>r\<close>, \<open>None\<close> when it is skipped or ends in its \<open>except\<close> branch (the
  backend raised, or the answer was too short and the block raised itself).
\<close>

definition try_ollama :: "env \<Rightarrow> string \<Rightarrow> string option" where
  "try_ollama ev prompt =
     (case check_ollama_running ev of (ollama_running, models) \<Rightarrow>
        (case models of
           [] \<Rightarrow> None
         | m0 # _ \<Rightarrow>
             if ollama_running then
               (let model_name =
                      (if list_ex (\<lambda>m. py_in ''llama3.2'' m) models then ''llama3.2'' else m0)
                in case ollama_invoke ev model_name prompt of
                     None \<Rightarrow> None
                   | Some response \<Rightarrow>
                       if length (py_strip response) > 100 then Some (py_strip response)
                       else None)
             else None))"

definition try_huggingface :: "env \<Rightarrow> string \<Rightarrow> string option" where
  "try_huggingface ev prompt =
     (case hf_generate ev prompt of
        None \<Rightarrow> None
      | Some generated_text \<Rightarrow>
          (let response = py_strip (drop (length prompt) generated_text)
           in if length response > 50 then Some response else None))"

definition query_llm_with_dss_prompt :: "env \<Rightarrow> string \<Rightarrow> string" where
  "query_llm_with_dss_prompt ev prompt =
     (case try_ollama ev prompt of
        Some response \<Rightarrow> response
      | None \<Rightarrow>
     (case try_huggingface ev prompt of
        Some response \<Rightarrow> response
      | None \<Rightarrow> generate_structured_fallback prompt))"

text \<open>Step 2 of \<open>query_financial_dss\<close>: the engine built from the preferences.\<close>

definition init_pref_engine :: "(string \<rightharpoonup> string) \<Rightarrow> engine" where
  "init_pref_engine preferences =
     PreferenceEngine
       (dict_get preferences ''risk_tolerance'' ''Medium'')
       (dict_get preferences ''time_horizon'' ''Long-term (>1yr)'')
       (dict_get preferences ''risk_behavior'' ''Risk-averse'')"

text \<open>Step 4: the rules block and the sources.\<close>

definition rules_step :: "env \<Rightarrow> string \<Rightarrow> string \<Rightarrow> bool \<Rightarrow> string \<times> string list" where
  "rules_step ev query_text tk use_rules =
     (if use_rules \<and> chroma_exists ev then
        (case retrieve_rules ev query_text tk of (rules_text, rule_sources) \<Rightarrow>
           if rules_text \<noteq> [] then
             (nl @ ''RELEVANT RULES AND CONSTRAINTS:'' @ nl @ rules_text @ nl, rule_sources)
           else ('''', []))
      else ('''', []))"

text \<open>
  The result is the triple of the source, or the exception that leaves the function.
  \<open>list(set(sources))\<close> is the sources without duplicates, in an order Python does not
  fix; the model keeps the first occurrences in order.
\<close>

definition query_financial_dss ::
    "py_fmt \<Rightarrow> env \<Rightarrow> string \<Rightarrow> string \<Rightarrow> (string \<rightharpoonup> string) \<Rightarrow> bool
       \<Rightarrow> py_error + (string \<times> string list \<times> stock_summary option)" where
  "query_financial_dss fm ev query_text tk preferences use_rules =
     (case get_stock_summary ev tk ''1y'' of
        None \<Rightarrow>
          Inr (''Unable to fetch data for ticker '' @ tk @ ''. Please verify the ticker symbol.'',
               [], None)
      | Some summary \<Rightarrow>
          (let pref_engine = init_pref_engine preferences;
               financial_context = format_for_llm fm (Some summary) preferences
           in case rules_step ev query_text tk use_rules of (rules_context, sources) \<Rightarrow>
                (case get_prompt_guidance pref_engine of
                   Inl err \<Rightarrow> Inl err
                 | Inr guidance \<Rightarrow>
                     Inr (query_llm_with_dss_prompt ev
                            (build_dss_prompt query_text financial_context rules_context guidance),
                          remdups sources, Some summary))))"

section \<open>Definitions that follow the specification\<close>

text \<open>
  The spec's trailing-window return over the closing prices: the last price against
  the price \<open>n\<close> places from the end.
\<close>

definition trailing_return :: "real list \<Rightarrow> nat \<Rightarrow> real" where
  "trailing_return closes n = (last closes / closes ! (length closes - n) - 1) * 100"

text \<open>
  The spec's volatility: the daily percentage returns of the closing prices, their
  sample standard deviation, annualised and in percent.
\<close>

fun daily_returns :: "real list \<Rightarrow> real list" where
  "daily_returns (p # q # rest) = (q - p) / p # daily_returns (q # rest)"
| "daily_returns [p] = []"
| "daily_returns [] = []"

definition sample_std :: "real list \<Rightarrow> real" where
  "sample_std xs = sqrt ((\<Sum>x \<leftarrow> xs. (x - mean xs) ^ 2) / (real (length xs) - 1))"

definition spec_volatility :: "real list \<Rightarrow> real" where
  "spec_volatility closes = sample_std (daily_returns closes) * sqrt 252 * 100"

text \<open>
  \<open>stock_aligned\<close> and \<open>market_aligned\<close> name the two date-aligned samples from
  which \<open>_compute_risk_metrics\<close> computes the beta: the stock's and the benchmark's
  returns at the dates that the code aligns.
\<close>

definition stock_aligned :: "bar list \<Rightarrow> series \<Rightarrow> real list" where
  "stock_aligned hist spy =
     map snd (aligned_returns (pct_change (close_series hist)) (pct_change spy))"

definition market_aligned :: "bar list \<Rightarrow> series \<Rightarrow> real list" where
  "market_aligned hist spy =
     map snd (aligned_market (pct_change (close_series hist)) (pct_change spy))"

section \<open>Auxiliary definitions for the proofs about the fallback\<close>





section \<open>Concrete inputs for the closed examples\<close>

text \<open>
  A printer of floats for the closed examples: decimal notation, the digits rounded to
  the nearest with ties to even, \<open>str\<close> with the fewest decimals (at least one) that
  give the value exactly. The theorems below hold for every printer.
\<close>

definition fixed_digits :: "nat \<Rightarrow> real \<Rightarrow> string" where
  "fixed_digits nd x =
     (let n = nat (round_half_even (\<bar>x\<bar> * 10 ^ nd));
          ip = n div 10 ^ nd;
          fp = n mod 10 ^ nd
      in str_nat ip @
         (if nd = 0 then []
          else CHR ''.'' # replicate (nd - length (str_nat fp)) (CHR ''0'') @ str_nat fp))"

fun shortest_nd :: "nat \<Rightarrow> nat \<Rightarrow> real \<Rightarrow> nat" where
  "shortest_nd 0 nd x = nd"
| "shortest_nd (Suc fuel) nd x =
     (if of_int \<lfloor>x * 10 ^ nd\<rfloor> = x * 10 ^ nd then nd else shortest_nd fuel (Suc nd) x)"

definition decimal_fmt :: py_fmt where
  "decimal_fmt =
     \<lparr>str_float = (\<lambda>v. case v of NaN \<Rightarrow> ''nan''
                        | Fin x \<Rightarrow> (if x < 0 then ''-'' else '''') @ fixed_digits (shortest_nd 16 1 x) x),
      fmt_f = (\<lambda>nd v. case v of NaN \<Rightarrow> ''nan''
                        | Fin x \<Rightarrow> (if x < 0 then ''-'' else '''') @ fixed_digits nd x),
      fmt_plus_f = (\<lambda>nd v. case v of NaN \<Rightarrow> ''nan''
                        | Fin x \<Rightarrow> (if x < 0 then ''-'' else ''+'') @ fixed_digits nd x)\<rparr>"

text \<open>An environment in which every outside call raises: no data, no index, no backend.\<close>

definition offline_env :: env where
  "offline_env =
     \<lparr>yf_history = (\<lambda>t p. None), yf_info = (\<lambda>t. None), today = ''2024-01-02'',
      chroma_exists = False, similarity_search = (\<lambda>q k. None), ollama_tags = None,
      ollama_invoke = (\<lambda>m p. None), hf_generate = (\<lambda>p. None)\<rparr>"

text \<open>The preferences dictionary that spells out the three defaults.\<close>

definition default_preferences :: "string \<rightharpoonup> string" where
  "default_preferences =
     [''risk_tolerance'' \<mapsto> ''Medium'', ''time_horizon'' \<mapsto> ''Long-term (>1yr)'',
      ''risk_behavior'' \<mapsto> ''Risk-averse'']"

text \<open>
  A history of three days, and an environment that serves it for every ticker, with an
  index directory that exists but holds no passage and with no generation backend.
\<close>

definition three_bars :: "bar list" where
  "three_bars =
     [\<lparr>bar_date = 0, bar_close = 1, bar_volume = 1000\<rparr>,
      \<lparr>bar_date = 1, bar_close = 2, bar_volume = 1000\<rparr>,
      \<lparr>bar_date = 2, bar_close = 4, bar_volume = 1000\<rparr>]"

definition empty_index_env :: env where
  "empty_index_env =
     \<lparr>yf_history = (\<lambda>t p. Some three_bars),
      yf_info = (\<lambda>t. Some \<lparr>info_sector = Some ''Technology'', info_industry = None,
                            info_dividendYield = None, info_marketCap = None\<rparr>),
      today = ''2024-01-02'',
      chroma_exists = True, similarity_search = (\<lambda>q k. Some []), ollama_tags = None,
      ollama_invoke = (\<lambda>m p. None), hf_generate = (\<lambda>p. None)\<rparr>"

text \<open>
  The preferences the constructor's docstring allows: each axis, after the defaults,
  is a key of its dictionary of frames.
\<close>

definition valid_preferences :: "(string \<rightharpoonup> string) \<Rightarrow> bool" where
  "valid_preferences p =
     (dict_get p ''risk_tolerance'' ''Medium'' \<in> set [''Low'', ''Medium'', ''High'']
      \<and> dict_get p ''time_horizon'' ''Long-term (>1yr)''
            \<in> set [''Short-term (<1yr)'', ''Long-term (>1yr)'']
      \<and> dict_get p ''risk_behavior'' ''Risk-averse'' \<in> set [''Risk-averse'', ''Risk-seeking''])"



text \<open>
  A history of 21 days that rises once at the end, and an environment that serves a
  history of a single day.
\<close>

definition month_bars :: "bar list" where
  "month_bars =
     map (\<lambda>i. \<lparr>bar_date = i, bar_close = (if i = 20 then 65 else 64), bar_volume = 1000\<rparr>)
         [0 ..< 21]"

definition one_bar_env :: env where
  "one_bar_env =
     \<lparr>yf_history = (\<lambda>t p. Some [\<lparr>bar_date = 0, bar_close = 100, bar_volume = 1000\<rparr>]),
      yf_info = (\<lambda>t. Some \<lparr>info_sector = None, info_industry = None,
                            info_dividendYield = None, info_marketCap = None\<rparr>),
      today = ''2024-01-02'',
      chroma_exists = False, similarity_search = (\<lambda>q k. None), ollama_tags = None,
      ollama_invoke = (\<lambda>m p. None), hf_generate = (\<lambda>p. None)\<rparr>"

text \<open>A stock summary with every metric present, the 6-month return among them.\<close>

definition sample_summary :: stock_summary where
  "sample_summary =
     \<lparr>ticker = ''ACME'', period = ''1y'', fetch_date = ''2024-01-02'',
      basic = \<lparr>sector = ''Technology'', industry = ''Software'', current_price = Fin 101.5,
               dividend_yield = Fin 0, market_cap = Inl ''N/A''\<rparr>,
      risk = \<lparr>volatility_annual = Fin 22.3, max_drawdown = Fin (- 12.4), beta = Some (Fin 1.1),
              avg_recovery_days = Some 14, risk_classification = ''Moderate'',
              sharp_moves_count = 3\<rparr>,
      perf = \<lparr>return_1m = Some (Fin 2.5), return_3m = Some (Fin 5.25),
              return_6m = Some (Fin 12.5), return_1y = Some (Fin 20),
              vs_sp500_1y = Some (Fin 4.75)\<rparr>,
      trend = \<lparr>price_trend_3m = ''rising'', volume_trend = ''stable'',
               position_vs_50day_avg = ''above''\<rparr>\<rparr>"

section \<open>Default preferences\<close>

lemma init_pref_engine_fields:
  "risk_tolerance (init_pref_engine p) =
     (case p ''risk_tolerance'' of None \<Rightarrow> ''Medium'' | Some v \<Rightarrow> v)"
  "time_horizon (init_pref_engine p) =
     (case p ''time_horizon'' of None \<Rightarrow> ''Long-term (>1yr)'' | Some v \<Rightarrow> v)"
  "risk_behavior (init_pref_engine p) =
     (case p ''risk_behavior'' of None \<Rightarrow> ''Risk-averse'' | Some v \<Rightarrow> v)"
  by (simp_all add: init_pref_engine_def PreferenceEngine_def dict_get_def)

lemma init_pref_engine_empty:
  "init_pref_engine Map.empty = PreferenceEngine ''Medium'' ''Long-term (>1yr)'' ''Risk-averse''"
  by (simp add: init_pref_engine_def dict_get_def)

lemma init_pref_engine_default:
  "init_pref_engine default_preferences = init_pref_engine Map.empty"
  by (simp add: init_pref_engine_def dict_get_def default_preferences_def)

lemma format_for_llm_default:
  "format_for_llm fm s default_preferences = format_for_llm fm s Map.empty"
  by (simp add: format_for_llm_def format_sections_def dict_get_def default_preferences_def
      split: option.splits)

lemma init_pref_engine_upd:
  "p ''risk_tolerance'' = None \<Longrightarrow>
     init_pref_engine (p(''risk_tolerance'' \<mapsto> ''Medium'')) = init_pref_engine p"
  "p ''time_horizon'' = None \<Longrightarrow>
     init_pref_engine (p(''time_horizon'' \<mapsto> ''Long-term (>1yr)'')) = init_pref_engine p"
  "p ''risk_behavior'' = None \<Longrightarrow>
     init_pref_engine (p(''risk_behavior'' \<mapsto> ''Risk-averse'')) = init_pref_engine p"
  by (simp_all add: init_pref_engine_def dict_get_def)

lemma format_for_llm_upd:
  "p ''risk_tolerance'' = None \<Longrightarrow>
     format_for_llm fm s (p(''risk_tolerance'' \<mapsto> ''Medium'')) = format_for_llm fm s p"
  "format_for_llm fm s (p(''time_horizon'' \<mapsto> v)) = format_for_llm fm s p"
  "format_for_llm fm s (p(''risk_behavior'' \<mapsto> v)) = format_for_llm fm s p"
  by (simp_all add: format_for_llm_def format_sections_def dict_get_def split: option.splits)

lemma query_financial_dss_cong:
  assumes "init_pref_engine p' = init_pref_engine p"
    and "\<And>s. format_for_llm fm s p' = format_for_llm fm s p"
  shows "query_financial_dss fm ev q tk p' u = query_financial_dss fm ev q tk p u"
  unfolding query_financial_dss_def assms ..

lemma init_pref_engine_explicit:
  "init_pref_engine p =
     PreferenceEngine
       (case p ''risk_tolerance'' of None \<Rightarrow> ''Medium'' | Some v \<Rightarrow> v)
       (case p ''time_horizon'' of None \<Rightarrow> ''Long-term (>1yr)'' | Some v \<Rightarrow> v)
       (case p ''risk_behavior'' of None \<Rightarrow> ''Risk-averse'' | Some v \<Rightarrow> v)"
  by (simp add: init_pref_engine_def dict_get_def)

lemma query_financial_dss_engine:
  "query_financial_dss fm ev q tk p u =
     (case get_stock_summary ev tk ''1y'' of
        None \<Rightarrow>
          Inr (''Unable to fetch data for ticker '' @ tk @ ''. Please verify the ticker symbol.'',
               [], None)
      | Some summary \<Rightarrow>
          (case get_prompt_guidance
                  (PreferenceEngine
                     (case p ''risk_tolerance'' of None \<Rightarrow> ''Medium'' | Some v \<Rightarrow> v)
                     (case p ''time_horizon'' of None \<Rightarrow> ''Long-term (>1yr)'' | Some v \<Rightarrow> v)
                     (case p ''risk_behavior'' of None \<Rightarrow> ''Risk-averse'' | Some v \<Rightarrow> v)) of
             Inl err \<Rightarrow> Inl err
           | Inr guidance \<Rightarrow>
               Inr (query_llm_with_dss_prompt ev
                      (build_dss_prompt q (format_for_llm fm (Some summary) p)
                         (fst (rules_step ev q tk u)) guidance),
                    remdups (snd (rules_step ev q tk u)), Some summary)))"
  unfolding query_financial_dss_def init_pref_engine_explicit [symmetric] Let_def
  by (simp add: case_prod_unfold split: option.splits)

lemma default_guidance_text:
  "\<exists>g. get_prompt_guidance (init_pref_engine Map.empty) = Inr g
        \<and> py_in ''- The user has medium risk tolerance with risk-averse behavior'' g
        \<and> py_in ''- Investment horizon: long-term (>1yr)'' g"
proof -
  have "case get_prompt_guidance (init_pref_engine Map.empty) of
          Inl err \<Rightarrow> False
        | Inr g \<Rightarrow> py_in ''- The user has medium risk tolerance with risk-averse behavior'' g
             \<and> py_in ''- Investment horizon: long-term (>1yr)'' g"
    by code_simp
  then show ?thesis by (auto split: sum.splits)
qed

text \<open>
  C10: every preference key that the dictionary lacks is replaced by its default:
  risk tolerance by Medium, time horizon by Long-term (>1yr), risk behavior by
  Risk-averse. The engine built from the empty dictionary is the engine of the three
  defaults, and the whole pipeline answers the empty dictionary as it answers the
  dictionary that spells the defaults out. For every dictionary, the entry point's
  result is built from the guidance of the engine whose three axes are the
  dictionary's values with the defaults filled in (or is that engine's exception);
  a dictionary that lacks a key is answered as the dictionary with the default stored
  under that key; and the guidance of the empty dictionary exists and names the medium
  risk tolerance, the risk-averse behavior and the long-term horizon.
\<close>

theorem C10_missing_preferences_default:
  "risk_tolerance (init_pref_engine p) =
     (case p ''risk_tolerance'' of None \<Rightarrow> ''Medium'' | Some v \<Rightarrow> v)
   \<and> time_horizon (init_pref_engine p) =
     (case p ''time_horizon'' of None \<Rightarrow> ''Long-term (>1yr)'' | Some v \<Rightarrow> v)
   \<and> risk_behavior (init_pref_engine p) =
     (case p ''risk_behavior'' of None \<Rightarrow> ''Risk-averse'' | Some v \<Rightarrow> v)
   \<and> init_pref_engine Map.empty = PreferenceEngine ''Medium'' ''Long-term (>1yr)'' ''Risk-averse''
   \<and> query_financial_dss fm ev q tk Map.empty u
       = query_financial_dss fm ev q tk default_preferences u
   \<and> query_financial_dss fm ev q tk p u =
       (case get_stock_summary ev tk ''1y'' of
          None \<Rightarrow>
            Inr (''Unable to fetch data for ticker '' @ tk @ ''. Please verify the ticker symbol.'',
                 [], None)
        | Some summary \<Rightarrow>
            (case get_prompt_guidance
                    (PreferenceEngine
                       (case p ''risk_tolerance'' of None \<Rightarrow> ''Medium'' | Some v \<Rightarrow> v)
                       (case p ''time_horizon'' of None \<Rightarrow> ''Long-term (>1yr)'' | Some v \<Rightarrow> v)
                       (case p ''risk_behavior'' of None \<Rightarrow> ''Risk-averse'' | Some v \<Rightarrow> v)) of
               Inl err \<Rightarrow> Inl err
             | Inr guidance \<Rightarrow>
                 Inr (query_llm_with_dss_prompt ev
                        (build_dss_prompt q (format_for_llm fm (Some summary) p)
                           (fst (rules_step ev q tk u)) guidance),
                      remdups (snd (rules_step ev q tk u)), Some summary)))
   \<and> (p ''risk_tolerance'' = None \<longrightarrow>
        query_financial_dss fm ev q tk (p(''risk_tolerance'' \<mapsto> ''Medium'')) u
          = query_financial_dss fm ev q tk p u)
   \<and> (p ''time_horizon'' = None \<longrightarrow>
        query_financial_dss fm ev q tk (p(''time_horizon'' \<mapsto> ''Long-term (>1yr)'')) u
          = query_financial_dss fm ev q tk p u)
   \<and> (p ''risk_behavior'' = None \<longrightarrow>
        query_financial_dss fm ev q tk (p(''risk_behavior'' \<mapsto> ''Risk-averse'')) u
          = query_financial_dss fm ev q tk p u)
   \<and> (\<exists>g. get_prompt_guidance (init_pref_engine Map.empty) = Inr g
          \<and> py_in ''- The user has medium risk tolerance with risk-averse behavior'' g
          \<and> py_in ''- Investment horizon: long-term (>1yr)'' g)"
proof -
  have e: "query_financial_dss fm ev q tk Map.empty u
       = query_financial_dss fm ev q tk default_preferences u"
    unfolding query_financial_dss_def init_pref_engine_default format_for_llm_default ..
  have a: "query_financial_dss fm ev q tk (p(''risk_tolerance'' \<mapsto> ''Medium'')) u
          = query_financial_dss fm ev q tk p u" if "p ''risk_tolerance'' = None"
    using that by (intro query_financial_dss_cong init_pref_engine_upd format_for_llm_upd)
  have b: "query_financial_dss fm ev q tk (p(''time_horizon'' \<mapsto> ''Long-term (>1yr)'')) u
          = query_financial_dss fm ev q tk p u" if "p ''time_horizon'' = None"
    using that by (intro query_financial_dss_cong init_pref_engine_upd format_for_llm_upd)
  have c: "query_financial_dss fm ev q tk (p(''risk_behavior'' \<mapsto> ''Risk-averse'')) u
          = query_financial_dss fm ev q tk p u" if "p ''risk_behavior'' = None"
    using that by (intro query_financial_dss_cong init_pref_engine_upd format_for_llm_upd)
  note f = init_pref_engine_fields [of p]
  show ?thesis
    by (intro conjI impI f init_pref_engine_empty e query_financial_dss_engine a b c
        default_guidance_text)
qed

theorem C10_missing_preferences_default_witness:
  "Map.empty ''risk_tolerance'' = (None :: string option)
   \<and> get_stock_summary empty_index_env ''ACME'' ''1y'' \<noteq> None
   \<and> query_financial_dss decimal_fmt empty_index_env ''Is it risky?'' ''ACME''
        (Map.empty(''risk_tolerance'' \<mapsto> ''Medium'')) True
      = query_financial_dss decimal_fmt empty_index_env ''Is it risky?'' ''ACME'' Map.empty True
   \<and> risk_tolerance (init_pref_engine Map.empty) = ''Medium''
   \<and> time_horizon (init_pref_engine Map.empty) = ''Long-term (>1yr)''
   \<and> risk_behavior (init_pref_engine Map.empty) = ''Risk-averse''"
proof -
  have n: "Map.empty ''risk_tolerance'' = (None :: string option)"
    by simp
  have g: "get_stock_summary empty_index_env ''ACME'' ''1y'' \<noteq> None"
    by (simp add: get_stock_summary_def empty_index_env_def three_bars_def)
  note t = C10_missing_preferences_default [of Map.empty decimal_fmt empty_index_env
      "''Is it risky?''" "''ACME''" True]
  from t n
  have q: "query_financial_dss decimal_fmt empty_index_env ''Is it risky?'' ''ACME''
        (Map.empty(''risk_tolerance'' \<mapsto> ''Medium'')) True
      = query_financial_dss decimal_fmt empty_index_env ''Is it risky?'' ''ACME'' Map.empty True"
    by blast
  note i = t [THEN conjunct2, THEN conjunct2, THEN conjunct2, THEN conjunct1]
  have r: "risk_tolerance (init_pref_engine Map.empty) = ''Medium''"
    and h: "time_horizon (init_pref_engine Map.empty) = ''Long-term (>1yr)''"
    and b: "risk_behavior (init_pref_engine Map.empty) = ''Risk-averse''"
    by (simp_all add: i PreferenceEngine_def)
  show ?thesis
    by (intro conjI n g q r h b)
qed

section \<open>Data unavailable\<close>

text \<open>
  C9: when fetching the ticker's history or its info raises (the ticker is unknown), or
  the fetched history is empty, \<open>query_financial_dss\<close> returns normally: the
  explanatory message that names the ticker, the empty list of sources, and no summary.
\<close>

theorem C9_data_unavailable:
  assumes "yf_history ev tk ''1y'' = None \<or> yf_info ev tk = None
             \<or> yf_history ev tk ''1y'' = Some []"
  shows "query_financial_dss fm ev q tk prefs u =
           Inr (''Unable to fetch data for ticker '' @ tk @ ''. Please verify the ticker symbol.'',
                [], None)"
  using assms
  by (auto simp: query_financial_dss_def get_stock_summary_def split: option.splits)

theorem C9_data_unavailable_witness:
  "(yf_history offline_env ''ZZZZ'' ''1y'' = None \<or> yf_info offline_env ''ZZZZ'' = None
      \<or> yf_history offline_env ''ZZZZ'' ''1y'' = Some [])
   \<and> query_financial_dss decimal_fmt offline_env ''Is it risky?'' ''ZZZZ'' Map.empty True =
       Inr (''Unable to fetch data for ticker ZZZZ. Please verify the ticker symbol.'', [], None)"
proof -
  have h: "yf_history offline_env ''ZZZZ'' ''1y'' = None \<or> yf_info offline_env ''ZZZZ'' = None
      \<or> yf_history offline_env ''ZZZZ'' ''1y'' = Some []"
    by (simp add: offline_env_def)
  from C9_data_unavailable [OF h, of decimal_fmt "''Is it risky?''" Map.empty True] h
  show ?thesis by simp
qed

section \<open>Rule retrieval on an absent or empty index\<close>

lemma retrieve_rules_empty:
  assumes "similarity_search ev (q @ '' '' @ tk @ '' investment rules constraints'') 5 = None
           \<or> similarity_search ev (q @ '' '' @ tk @ '' investment rules constraints'') 5 = Some []"
  shows "retrieve_rules ev q tk = ('''', [])"
  using assms by (auto simp: retrieve_rules_def)

lemma rules_step_absent:
  assumes "\<not> chroma_exists ev
           \<or> similarity_search ev (q @ '' '' @ tk @ '' investment rules constraints'') 5 = None
           \<or> similarity_search ev (q @ '' '' @ tk @ '' investment rules constraints'') 5 = Some []"
  shows "rules_step ev q tk u = ('''', [])"
  using assms by (auto simp: rules_step_def retrieve_rules_def)

lemma volatility_frames_keys:
  "k \<in> set [''Low'', ''Medium'', ''High''] \<Longrightarrow> \<exists>f. volatility_frames k = Some f"
  by (auto simp: volatility_frames_def)

lemma time_frames_keys:
  "k \<in> set [''Short-term (<1yr)'', ''Long-term (>1yr)''] \<Longrightarrow> \<exists>f. time_frames k = Some f"
  by (auto simp: time_frames_def)

lemma behavior_frames_keys:
  "k \<in> set [''Risk-averse'', ''Risk-seeking''] \<Longrightarrow> \<exists>f. behavior_frames k = Some f"
  by (auto simp: behavior_frames_def)

lemma interpretive_context_of_valid_preferences:
  assumes "valid_preferences p"
  shows "\<exists>c. get_interpretive_context (init_pref_engine p) = Inr c"
proof -
  let ?e = "init_pref_engine p"
  from assms obtain vf tf bf where
    "volatility_frames (risk_tolerance ?e) = Some vf"
    "time_frames (time_horizon ?e) = Some tf"
    "behavior_frames (risk_behavior ?e) = Some bf"
    unfolding valid_preferences_def init_pref_engine_def PreferenceEngine_def
    using volatility_frames_keys time_frames_keys behavior_frames_keys
    by (metis engine.select_convs(1,2,3))
  then show ?thesis
    unfolding get_interpretive_context_def by simp
qed

lemma guidance_of_valid_preferences:
  assumes "valid_preferences p"
  shows "\<exists>g. get_prompt_guidance (init_pref_engine p) = Inr g"
proof -
  from interpretive_context_of_valid_preferences [OF assms]
  obtain c where "get_interpretive_context (init_pref_engine p) = Inr c" ..
  then show ?thesis
    unfolding get_prompt_guidance_def by (simp only: sum.case) blast
qed

text \<open>
  C8: when the index directory is absent, or the search raises or finds nothing,
  \<open>retrieve_rules\<close> (where it is called) returns the empty text and the empty list of
  sources; it has no exceptional result at all. The pipeline then answers as it does
  with rules switched off, any result it returns has no sources, and with valid
  preferences it does return a result.
\<close>

theorem C8_rules_absent:
  assumes "\<not> chroma_exists ev
           \<or> similarity_search ev (q @ '' '' @ tk @ '' investment rules constraints'') 5 = None
           \<or> similarity_search ev (q @ '' '' @ tk @ '' investment rules constraints'') 5 = Some []"
  shows "(chroma_exists ev \<longrightarrow> retrieve_rules ev q tk = ('''', []))
     \<and> query_financial_dss fm ev q tk prefs True = query_financial_dss fm ev q tk prefs False
     \<and> (\<forall>r s z. query_financial_dss fm ev q tk prefs True = Inr (r, s, z) \<longrightarrow> s = [])
     \<and> (valid_preferences prefs \<longrightarrow>
          (\<exists>r z. query_financial_dss fm ev q tk prefs True = Inr (r, [], z)))"
proof -
  have rs: "rules_step ev q tk u = ('''', [])" for u
    using assms by (rule rules_step_absent)
  have a: "chroma_exists ev \<longrightarrow> retrieve_rules ev q tk = ('''', [])"
    using assms by (auto intro: retrieve_rules_empty)
  have b: "query_financial_dss fm ev q tk prefs True = query_financial_dss fm ev q tk prefs False"
    unfolding query_financial_dss_def rs ..
  have c: "s = []" if "query_financial_dss fm ev q tk prefs True = Inr (r, s, z)" for r s z
    using that unfolding query_financial_dss_def rs
    by (auto simp: Let_def split: option.splits sum.splits)
  have d: "\<exists>r z. query_financial_dss fm ev q tk prefs True = Inr (r, [], z)"
    if "valid_preferences prefs"
  proof -
    from guidance_of_valid_preferences [OF that]
    obtain g where "get_prompt_guidance (init_pref_engine prefs) = Inr g" ..
    then show ?thesis
      unfolding query_financial_dss_def rs
      by (simp add: Let_def split: option.splits)
  qed
  from a b c d show ?thesis by blast
qed

theorem C8_rules_absent_witness:
  "chroma_exists empty_index_env
   \<and> similarity_search empty_index_env
        (''Is it risky?'' @ '' '' @ ''ACME'' @ '' investment rules constraints'') 5 = Some []
   \<and> valid_preferences Map.empty
   \<and> retrieve_rules empty_index_env ''Is it risky?'' ''ACME'' = ('''', [])
   \<and> query_financial_dss decimal_fmt empty_index_env ''Is it risky?'' ''ACME'' Map.empty True
       = query_financial_dss decimal_fmt empty_index_env ''Is it risky?'' ''ACME'' Map.empty False
   \<and> (\<exists>r z. query_financial_dss decimal_fmt empty_index_env ''Is it risky?'' ''ACME'' Map.empty True
              = Inr (r, [], z))"
proof -
  have s: "similarity_search empty_index_env
        (''Is it risky?'' @ '' '' @ ''ACME'' @ '' investment rules constraints'') 5 = Some []"
    by (simp add: empty_index_env_def)
  have c: "chroma_exists empty_index_env"
    by (simp add: empty_index_env_def)
  have v: "valid_preferences Map.empty"
    by (simp add: valid_preferences_def dict_get_def)
  from s have h: "\<not> chroma_exists empty_index_env
     \<or> similarity_search empty_index_env
          (''Is it risky?'' @ '' '' @ ''ACME'' @ '' investment rules constraints'') 5 = None
     \<or> similarity_search empty_index_env
          (''Is it risky?'' @ '' '' @ ''ACME'' @ '' investment rules constraints'') 5 = Some []"
    by blast
  from C8_rules_absent [OF h, of decimal_fmt Map.empty] s c v show ?thesis by blast
qed

section \<open>Volatility bands\<close>

lemma interpret_volatility_low:
  "\<exists>ph. (\<forall>x. interpret_volatility fm (PreferenceEngine ''Low'' th rb) x
              = Inr (str_float fm x @ ph (risk_class_of x)))
     \<and> ph ''Low'' \<noteq> ph ''Moderate'' \<and> ph ''Low'' \<noteq> ph ''High'' \<and> ph ''Moderate'' \<noteq> ph ''High''"
  apply (rule exI [where x = "\<lambda>c.
       if c = ''Low'' then ''% volatility indicates stable, predictable behavior aligned with conservative objectives''
       else if c = ''Moderate'' then ''% volatility suggests price swings that may exceed comfort thresholds for capital preservation''
       else ''% volatility represents substantial fluctuation risk unsuitable for conservative portfolios''"])
  apply (simp add: interpret_volatility_def PreferenceEngine_def volatility_frames_def risk_class_of_def)
  done

lemma interpret_volatility_medium:
  "\<exists>ph. (\<forall>x. interpret_volatility fm (PreferenceEngine ''Medium'' th rb) x
              = Inr (str_float fm x @ ph (risk_class_of x)))
     \<and> ph ''Low'' \<noteq> ph ''Moderate'' \<and> ph ''Low'' \<noteq> ph ''High'' \<and> ph ''Moderate'' \<noteq> ph ''High''"
  apply (rule exI [where x = "\<lambda>c.
       if c = ''Low'' then ''% volatility indicates low-risk behavior suitable for core holdings''
       else if c = ''Moderate'' then ''% volatility is typical for balanced growth strategies''
       else ''% volatility exceeds typical balanced portfolio guidelines''"])
  apply (simp add: interpret_volatility_def PreferenceEngine_def volatility_frames_def risk_class_of_def)
  done

lemma interpret_volatility_high:
  "\<exists>ph. (\<forall>x. interpret_volatility fm (PreferenceEngine ''High'' th rb) x
              = Inr (str_float fm x @ ph (risk_class_of x)))
     \<and> ph ''Low'' \<noteq> ph ''Moderate'' \<and> ph ''Low'' \<noteq> ph ''High'' \<and> ph ''Moderate'' \<noteq> ph ''High''"
  apply (rule exI [where x = "\<lambda>c.
       if c = ''Low'' then ''% volatility suggests limited price movement, constraining potential for aggressive returns''
       else if c = ''Moderate'' then ''% volatility provides meaningful opportunity for returns while remaining investable''
       else ''% volatility creates significant return potential during favorable market phases''"])
  apply (simp add: interpret_volatility_def PreferenceEngine_def volatility_frames_def risk_class_of_def)
  done

lemma risk_class_of_bands:
  "(risk_class_of (Fin v) = ''Low'' \<longleftrightarrow> v < 15)
   \<and> (risk_class_of (Fin v) = ''Moderate'' \<longleftrightarrow> 15 \<le> v \<and> v < 25)
   \<and> (risk_class_of (Fin v) = ''High'' \<longleftrightarrow> 25 \<le> v)"
  by (auto simp: risk_class_of_def)

lemma risk_class_of_examples:
  "risk_class_of (Fin 14.99) = ''Low'' \<and> risk_class_of (Fin 15.0) = ''Moderate''
   \<and> risk_class_of (Fin 24.99) = ''Moderate'' \<and> risk_class_of (Fin 25.0) = ''High''"
  by (simp add: risk_class_of_def)

lemma risk_classification_compute:
  "risk_classification (compute_risk_metrics hist spy)
     = risk_class_of (annual_volatility (map snd (pct_change (close_series hist))))"
  by (simp add: compute_risk_metrics_def Let_def)

text \<open>
  C6: the risk classification of a volatility \<open>v\<close> is Low exactly when \<open>v < 15\<close>,
  Moderate exactly when \<open>15 \<le> v < 25\<close> and High exactly when \<open>25 \<le> v\<close> (14.99 is
  Low, 15.0 and 24.99 are Moderate, 25.0 is High); it is the classification the risk
  metrics report. For each of the three risk tolerances the volatility explainer
  answers the printed number followed by a phrase that the classification alone
  selects, a different phrase for each class: its bands are the same two boundaries.
  (A volatility that is not a number fails both comparisons and falls in the last band
  of either function.)
\<close>

theorem C6_volatility_bands:
  "(risk_class_of (Fin v) = ''Low'' \<longleftrightarrow> v < 15)
   \<and> (risk_class_of (Fin v) = ''Moderate'' \<longleftrightarrow> 15 \<le> v \<and> v < 25)
   \<and> (risk_class_of (Fin v) = ''High'' \<longleftrightarrow> 25 \<le> v)
   \<and> risk_class_of (Fin 14.99) = ''Low'' \<and> risk_class_of (Fin 15.0) = ''Moderate''
   \<and> risk_class_of (Fin 24.99) = ''Moderate'' \<and> risk_class_of (Fin 25.0) = ''High''
   \<and> risk_classification (compute_risk_metrics hist spy)
        = risk_class_of (annual_volatility (map snd (pct_change (close_series hist))))
   \<and> (\<exists>ph. (\<forall>x. interpret_volatility fm (PreferenceEngine ''Low'' th rb) x
                 = Inr (str_float fm x @ ph (risk_class_of x)))
        \<and> ph ''Low'' \<noteq> ph ''Moderate'' \<and> ph ''Low'' \<noteq> ph ''High'' \<and> ph ''Moderate'' \<noteq> ph ''High'')
   \<and> (\<exists>ph. (\<forall>x. interpret_volatility fm (PreferenceEngine ''Medium'' th rb) x
                 = Inr (str_float fm x @ ph (risk_class_of x)))
        \<and> ph ''Low'' \<noteq> ph ''Moderate'' \<and> ph ''Low'' \<noteq> ph ''High'' \<and> ph ''Moderate'' \<noteq> ph ''High'')
   \<and> (\<exists>ph. (\<forall>x. interpret_volatility fm (PreferenceEngine ''High'' th rb) x
                 = Inr (str_float fm x @ ph (risk_class_of x)))
        \<and> ph ''Low'' \<noteq> ph ''Moderate'' \<and> ph ''Low'' \<noteq> ph ''High'' \<and> ph ''Moderate'' \<noteq> ph ''High'')"
  using risk_class_of_bands [of v] risk_class_of_examples
    risk_classification_compute [of hist spy]
    interpret_volatility_low [of fm th rb] interpret_volatility_medium [of fm th rb]
    interpret_volatility_high [of fm th rb]
  by blast

section \<open>Framing by risk tolerance\<close>

lemma interpret_volatility_phrases:
  "interpret_volatility fm (PreferenceEngine ''Low'' th rb) v = Inr (str_float fm v @
     (if flt v 15 then ''% volatility indicates stable, predictable behavior aligned with conservative objectives''
      else if flt v 25 then ''% volatility suggests price swings that may exceed comfort thresholds for capital preservation''
      else ''% volatility represents substantial fluctuation risk unsuitable for conservative portfolios''))"
  "interpret_volatility fm (PreferenceEngine ''Medium'' th rb) v = Inr (str_float fm v @
     (if flt v 15 then ''% volatility indicates low-risk behavior suitable for core holdings''
      else if flt v 25 then ''% volatility is typical for balanced growth strategies''
      else ''% volatility exceeds typical balanced portfolio guidelines''))"
  "interpret_volatility fm (PreferenceEngine ''High'' th rb) v = Inr (str_float fm v @
     (if flt v 15 then ''% volatility suggests limited price movement, constraining potential for aggressive returns''
      else if flt v 25 then ''% volatility provides meaningful opportunity for returns while remaining investable''
      else ''% volatility creates significant return potential during favorable market phases''))"
  by (simp_all add: interpret_volatility_def PreferenceEngine_def volatility_frames_def)

lemma interpret_volatility_pairs:
  "interpret_volatility fm (PreferenceEngine ''Low'' th rb) v
     \<noteq> interpret_volatility fm (PreferenceEngine ''Medium'' th rb) v"
  "interpret_volatility fm (PreferenceEngine ''Low'' th rb) v
     \<noteq> interpret_volatility fm (PreferenceEngine ''High'' th rb) v"
  "interpret_volatility fm (PreferenceEngine ''Medium'' th rb) v
     \<noteq> interpret_volatility fm (PreferenceEngine ''High'' th rb) v"
  by (simp_all add: interpret_volatility_phrases)

lemma three_way_distinct:
  assumes "x \<in> {a, b, c}" "y \<in> {a, b, c}" "x \<noteq> y"
    and "f a \<noteq> f b" "f a \<noteq> f c" "f b \<noteq> f c"
  shows "f x \<noteq> f y"
  using assms by auto

lemma interpret_volatility_sentence:
  assumes "rt \<in> {''Low'', ''Medium'', ''High''}"
  shows "\<exists>s. interpret_volatility fm (PreferenceEngine rt th rb) v = Inr s"
  using assms interpret_volatility_phrases [of fm th rb v] by auto

lemma interpret_volatility_distinct:
  assumes "rt1 \<in> {''Low'', ''Medium'', ''High''}" "rt2 \<in> {''Low'', ''Medium'', ''High''}"
    and "rt1 \<noteq> rt2"
  shows "\<exists>s1 s2. interpret_risk_metric fm (PreferenceEngine rt1 th rb) ''volatility'' v = Inr s1
     \<and> interpret_risk_metric fm (PreferenceEngine rt2 th rb) ''volatility'' v = Inr s2
     \<and> s1 \<noteq> s2"
proof -
  have m: "interpret_risk_metric fm e ''volatility'' v = interpret_volatility fm e v" for e
    by (simp add: interpret_risk_metric_def)
  from assms(1) obtain s1
    where s1: "interpret_volatility fm (PreferenceEngine rt1 th rb) v = Inr s1"
    using interpret_volatility_sentence by blast
  from assms(2) obtain s2
    where s2: "interpret_volatility fm (PreferenceEngine rt2 th rb) v = Inr s2"
    using interpret_volatility_sentence by blast
  have "interpret_volatility fm (PreferenceEngine rt1 th rb) v
          \<noteq> interpret_volatility fm (PreferenceEngine rt2 th rb) v"
    by (rule three_way_distinct
          [where f = "\<lambda>rt. interpret_volatility fm (PreferenceEngine rt th rb) v",
           OF assms interpret_volatility_pairs])
  with s1 s2 have "s1 \<noteq> s2" by simp
  with s1 s2 show ?thesis unfolding m by blast
qed

lemma interpret_drawdown_beta_ignore_tolerance:
  "interpret_risk_metric fm (PreferenceEngine rt1 th rb) ''drawdown'' v
    = interpret_risk_metric fm (PreferenceEngine rt2 th rb) ''drawdown'' v"
  "interpret_risk_metric fm (PreferenceEngine rt1 th rb) ''beta'' v
    = interpret_risk_metric fm (PreferenceEngine rt2 th rb) ''beta'' v"
  by (simp_all add: interpret_risk_metric_def interpret_drawdown_def interpret_beta_def
      PreferenceEngine_def)

lemma interpret_drawdown_beta_by_behavior:
  "interpret_risk_metric fm (PreferenceEngine rt th ''Risk-averse'') ''drawdown'' v
     \<noteq> interpret_risk_metric fm (PreferenceEngine rt th ''Risk-seeking'') ''drawdown'' v"
  "interpret_risk_metric fm (PreferenceEngine rt th ''Risk-averse'') ''beta'' v
     \<noteq> interpret_risk_metric fm (PreferenceEngine rt th ''Risk-seeking'') ''beta'' v"
  by (simp_all add: interpret_risk_metric_def interpret_drawdown_def interpret_beta_def
      PreferenceEngine_def Let_def)

text \<open>
  C3, as the claim states it, fails for the drawdown and for the beta: the explainer of
  a drawdown of -12 answers the same sentence under low and under high risk tolerance.
\<close>

theorem C3_drawdown_counterexample:
  "interpret_risk_metric decimal_fmt
       (PreferenceEngine ''Low'' ''Long-term (>1yr)'' ''Risk-averse'') ''drawdown'' (Fin (- 12))
     = Inr ''-12.0% maximum drawdown represents notable capital risk requiring consideration''
   \<and> interpret_risk_metric decimal_fmt
       (PreferenceEngine ''High'' ''Long-term (>1yr)'' ''Risk-averse'') ''drawdown'' (Fin (- 12))
     = Inr ''-12.0% maximum drawdown represents notable capital risk requiring consideration''"
  by code_simp

text \<open>
  C3, amended: for two preference vectors that differ only in their risk tolerance
  (each one of Low, Medium, High), the volatility explainer answers two different
  sentences for the same value. The explainers of the drawdown and of the beta do not
  read the risk tolerance: they answer the same sentence under both vectors, and it is
  the risk behavior (Risk-averse against Risk-seeking) that changes their sentence.
\<close>

theorem C3_framing_by_preference:
  assumes "rt1 \<in> {''Low'', ''Medium'', ''High''}" "rt2 \<in> {''Low'', ''Medium'', ''High''}"
    and "rt1 \<noteq> rt2"
  shows "(\<exists>s1 s2. interpret_risk_metric fm (PreferenceEngine rt1 th rb) ''volatility'' v = Inr s1
            \<and> interpret_risk_metric fm (PreferenceEngine rt2 th rb) ''volatility'' v = Inr s2
            \<and> s1 \<noteq> s2)
     \<and> interpret_risk_metric fm (PreferenceEngine rt1 th rb) ''drawdown'' v
         = interpret_risk_metric fm (PreferenceEngine rt2 th rb) ''drawdown'' v
     \<and> interpret_risk_metric fm (PreferenceEngine rt1 th rb) ''beta'' v
         = interpret_risk_metric fm (PreferenceEngine rt2 th rb) ''beta'' v
     \<and> interpret_risk_metric fm (PreferenceEngine rt1 th ''Risk-averse'') ''drawdown'' v
         \<noteq> interpret_risk_metric fm (PreferenceEngine rt1 th ''Risk-seeking'') ''drawdown'' v
     \<and> interpret_risk_metric fm (PreferenceEngine rt1 th ''Risk-averse'') ''beta'' v
         \<noteq> interpret_risk_metric fm (PreferenceEngine rt1 th ''Risk-seeking'') ''beta'' v"
  using interpret_volatility_distinct [OF assms]
    interpret_drawdown_beta_ignore_tolerance [of fm rt1 th rb v rt2]
    interpret_drawdown_beta_by_behavior [of fm rt1 th v]
  by blast

theorem C3_framing_by_preference_witness:
  "''Low'' \<in> {''Low'', ''Medium'', ''High''} \<and> ''High'' \<in> {''Low'', ''Medium'', ''High''}
   \<and> ''Low'' \<noteq> ''High''
   \<and> (\<exists>s1 s2. interpret_risk_metric decimal_fmt
          (PreferenceEngine ''Low'' ''Long-term (>1yr)'' ''Risk-averse'') ''volatility'' (Fin 22) = Inr s1
        \<and> interpret_risk_metric decimal_fmt
          (PreferenceEngine ''High'' ''Long-term (>1yr)'' ''Risk-averse'') ''volatility'' (Fin 22) = Inr s2
        \<and> s1 \<noteq> s2)
   \<and> interpret_risk_metric decimal_fmt
        (PreferenceEngine ''Low'' ''Long-term (>1yr)'' ''Risk-averse'') ''beta'' (Fin 22)
      = interpret_risk_metric decimal_fmt
        (PreferenceEngine ''High'' ''Long-term (>1yr)'' ''Risk-averse'') ''beta'' (Fin 22)"
proof -
  have a: "''Low'' \<in> {''Low'', ''Medium'', ''High''}"
    and b: "''High'' \<in> {''Low'', ''Medium'', ''High''}"
    and c: "''Low'' \<noteq> ''High''"
    by simp_all
  note t = C3_framing_by_preference [OF a b c, of decimal_fmt "''Long-term (>1yr)''"
      "''Risk-averse''" "Fin 22"]
  from t have t1: "\<exists>s1 s2. interpret_risk_metric decimal_fmt
          (PreferenceEngine ''Low'' ''Long-term (>1yr)'' ''Risk-averse'') ''volatility'' (Fin 22) = Inr s1
        \<and> interpret_risk_metric decimal_fmt
          (PreferenceEngine ''High'' ''Long-term (>1yr)'' ''Risk-averse'') ''volatility'' (Fin 22) = Inr s2
        \<and> s1 \<noteq> s2"
    by (rule conjunct1)
  from t have t2: "interpret_risk_metric decimal_fmt
        (PreferenceEngine ''Low'' ''Long-term (>1yr)'' ''Risk-averse'') ''beta'' (Fin 22)
      = interpret_risk_metric decimal_fmt
        (PreferenceEngine ''High'' ''Long-term (>1yr)'' ''Risk-averse'') ''beta'' (Fin 22)"
    by (elim conjE)
  show ?thesis
    by (intro conjI a b c t1 t2)
qed

section \<open>The deterministic fallback\<close>
































section \<open>The narrative of a summary\<close>

text \<open>
  C1 fails on the code: \<open>format_for_llm\<close> has a line for the 1-month, the 3-month
  and the 1-year return and none for the 6-month return. The narrative of the sample
  summary, whose 6-month return is 12.5, has no line for it; the narrative is the same
  whatever the 6-month return is; and a beta that is present and 0 is left out as a
  missing beta is, since the guard tests the value's truth and not its presence.
\<close>

theorem C1_six_month_return_omitted:
  "py_split_nl (format_for_llm decimal_fmt (Some sample_summary) Map.empty) =
     [''=== STOCK PROFILE: ACME ==='',
      ''Analysis Period: 1y ending 2024-01-02'',
      '''',
      ''BASIC INFORMATION:'',
      ''  Sector: Technology'',
      ''  Industry: Software'',
      ''  Current Price: $101.5'',
      '''',
      ''RISK CHARACTERISTICS:'',
      ''  Annualized Volatility: 22.3% (Moderate risk)'',
      ''  Context: This moderate volatility is typical for diversified portfolios seeking balanced growth'',
      ''  Maximum Drawdown (period): -12.4%'',
      ''  Beta (market sensitivity): 1.1'',
      ''  Average Recovery Time: 14 days'',
      ''  Sharp Moves (>5%): 3 days'',
      '''',
      ''HISTORICAL PERFORMANCE:'',
      ''  1-Month Return: +2.50%'',
      ''  3-Month Return: +5.25%'',
      ''  1-Year Return: +20.00%'',
      ''  vs. S&P 500: outperformed by 4.75%'',
      '''',
      ''RECENT TRENDS:'',
      ''  3-Month Price Trend: rising'',
      ''  Volume Trend: stable'',
      ''  Position vs 50-Day Average: above'']
   \<and> format_for_llm fm (Some (s\<lparr>perf := (perf s)\<lparr>return_6m := a\<rparr>\<rparr>)) prefs
       = format_for_llm fm (Some (s\<lparr>perf := (perf s)\<lparr>return_6m := b\<rparr>\<rparr>)) prefs
   \<and> format_for_llm fm (Some (s\<lparr>risk := (risk s)\<lparr>beta := Some (Fin 0)\<rparr>\<rparr>)) prefs
       = format_for_llm fm (Some (s\<lparr>risk := (risk s)\<lparr>beta := None\<rparr>\<rparr>)) prefs"
proof -
  have "py_split_nl (format_for_llm decimal_fmt (Some sample_summary) Map.empty) =
     [''=== STOCK PROFILE: ACME ==='',
      ''Analysis Period: 1y ending 2024-01-02'',
      '''',
      ''BASIC INFORMATION:'',
      ''  Sector: Technology'',
      ''  Industry: Software'',
      ''  Current Price: $101.5'',
      '''',
      ''RISK CHARACTERISTICS:'',
      ''  Annualized Volatility: 22.3% (Moderate risk)'',
      ''  Context: This moderate volatility is typical for diversified portfolios seeking balanced growth'',
      ''  Maximum Drawdown (period): -12.4%'',
      ''  Beta (market sensitivity): 1.1'',
      ''  Average Recovery Time: 14 days'',
      ''  Sharp Moves (>5%): 3 days'',
      '''',
      ''HISTORICAL PERFORMANCE:'',
      ''  1-Month Return: +2.50%'',
      ''  3-Month Return: +5.25%'',
      ''  1-Year Return: +20.00%'',
      ''  vs. S&P 500: outperformed by 4.75%'',
      '''',
      ''RECENT TRENDS:'',
      ''  3-Month Price Trend: rising'',
      ''  Volume Trend: stable'',
      ''  Position vs 50-Day Average: above'']"
    by code_simp
  moreover have "format_for_llm fm (Some (s\<lparr>perf := (perf s)\<lparr>return_6m := a\<rparr>\<rparr>)) prefs
       = format_for_llm fm (Some (s\<lparr>perf := (perf s)\<lparr>return_6m := b\<rparr>\<rparr>)) prefs"
    by (simp add: format_for_llm_def format_sections_def)
  moreover have "format_for_llm fm (Some (s\<lparr>risk := (risk s)\<lparr>beta := Some (Fin 0)\<rparr>\<rparr>)) prefs
       = format_for_llm fm (Some (s\<lparr>risk := (risk s)\<lparr>beta := None\<rparr>\<rparr>)) prefs"
    by (simp add: format_for_llm_def format_sections_def)
  ultimately show ?thesis by (intro conjI)
qed

section \<open>Beta\<close>

lemma beta_field:
  "beta (compute_risk_metrics hist spy) =
     (case compute_beta (pct_change (close_series hist)) spy of
        None \<Rightarrow> None
      | Some b \<Rightarrow> if truthy b then Some (fround b 2) else None)"
  by (simp add: compute_risk_metrics_def Let_def)

lemma compute_beta_Some:
  "compute_beta (pct_change (close_series hist)) (Some spy) =
     Some (if fgt (np_var (market_aligned hist spy)) 0
           then fdiv (np_cov (stock_aligned hist spy) (market_aligned hist spy))
                     (np_var (market_aligned hist spy))
           else Fin 1)"
  by (simp add: compute_beta_def Let_def stock_aligned_def market_aligned_def)

lemma py_round_one: "py_round 1 2 = 1"
  by (simp add: py_round_def round_half_even_def)

lemma mean_constant:
  assumes "\<forall>y \<in> set ys. y = c" "ys \<noteq> []"
  shows "mean ys = c"
proof -
  from assms(1) have "replicate (length ys) c = ys"
    by (simp add: replicate_length_same)
  then have "sum_list ys = sum_list (replicate (length ys) c)" by simp
  also have "\<dots> = real (length ys) * c" by (simp add: sum_list_replicate)
  finally show ?thesis using assms(2) by (simp add: mean_def)
qed

lemma np_var_constant:
  assumes "\<forall>y \<in> set ys. y = c"
  shows "\<not> fgt (np_var ys) 0"
proof (cases "ys = []")
  case True
  then show ?thesis by (simp add: np_var_def)
next
  case False
  with assms have m: "mean ys = c" by (rule mean_constant)
  from assms have z: "sum_list (map (\<lambda>y. (y - c) ^ 2) ys) = 0"
    by (induction ys) auto
  from False show ?thesis by (simp add: np_var_def m z)
qed

lemma reindex_dropna_dates:
  "map fst (reindex_dropna s idx) = filter (\<lambda>d. d \<in> fst ` set s) idx"
  by (induction idx) (auto simp: reindex_dropna_def map_of_eq_None_iff split: option.splits
      dest: map_of_SomeD)

lemma aligned_dates:
  "map fst (aligned_returns r m) = filter (\<lambda>d. d \<in> fst ` set r) (map fst m)"
  "map fst (aligned_market r m) = filter (\<lambda>d. d \<in> fst ` set r) (map fst m)"
proof -
  show a: "map fst (aligned_returns r m) = filter (\<lambda>d. d \<in> fst ` set r) (map fst m)"
    by (simp add: aligned_returns_def reindex_dropna_dates)
  have "map fst (aligned_market r m)
          = filter (\<lambda>d. d \<in> fst ` set m) (filter (\<lambda>d. d \<in> fst ` set r) (map fst m))"
    by (simp add: aligned_market_def reindex_dropna_dates a)
  also have "\<dots> = filter (\<lambda>d. d \<in> fst ` set r) (map fst m)"
    by (rule filter_True) auto
  finally show "map fst (aligned_market r m) = filter (\<lambda>d. d \<in> fst ` set r) (map fst m)" .
qed

lemma beta_of_aligned_samples:
  assumes "stock_aligned hist spy = stock_aligned hist' spy'"
    and "market_aligned hist spy = market_aligned hist' spy'"
  shows "beta (compute_risk_metrics hist (Some spy)) = beta (compute_risk_metrics hist' (Some spy'))"
  by (simp add: beta_field compute_beta_Some assms)

text \<open>
  C2, as the claim states it, fails where the variance is zero: for a stock and a
  benchmark with the closing prices 1, 2, 4 the benchmark's returns are 1 and 1, their
  variance is 0, and the beta field is 1.0, not null.
\<close>

theorem C2_zero_variance_counterexample:
  "np_var (market_aligned three_bars (close_series three_bars)) = Fin 0
   \<and> beta (compute_risk_metrics three_bars (Some (close_series three_bars))) = Some (Fin 1)"
  by (simp add: compute_risk_metrics_def compute_beta_def Let_def market_aligned_def
      aligned_market_def aligned_returns_def reindex_dropna_def three_bars_def close_series_def
      np_var_def np_cov_def mean_def py_round_def round_half_even_def)

text \<open>
  C2, amended: the beta field is null when the benchmark series is unavailable. When
  the variance of the benchmark returns over the date-aligned intersection is zero
  (the aligned benchmark returns are all equal), or is not positive for want of an
  aligned return, the field is 1.0 and not null. In every other case the field is
  computed from the two date-aligned samples alone: the stock's and the benchmark's
  returns at the dates of the benchmark's returns at which the stock has a return, in
  the benchmark's order. (How the quotient of covariance and variance is formed,
  tested and rounded there is not part of this statement.)
\<close>

theorem C2_beta:
  "beta (compute_risk_metrics hist None) = None
   \<and> (\<not> fgt (np_var (market_aligned hist spy)) 0 \<longrightarrow>
        beta (compute_risk_metrics hist (Some spy)) = Some (Fin 1))
   \<and> ((\<forall>y \<in> set (market_aligned hist spy). y = c) \<longrightarrow>
        beta (compute_risk_metrics hist (Some spy)) = Some (Fin 1))
   \<and> (stock_aligned hist spy = stock_aligned hist' spy'
        \<and> market_aligned hist spy = market_aligned hist' spy' \<longrightarrow>
        beta (compute_risk_metrics hist (Some spy))
          = beta (compute_risk_metrics hist' (Some spy')))
   \<and> map fst (aligned_returns (pct_change (close_series hist)) (pct_change spy))
        = filter (\<lambda>d. d \<in> fst ` set (pct_change (close_series hist))) (map fst (pct_change spy))
   \<and> map fst (aligned_market (pct_change (close_series hist)) (pct_change spy))
        = filter (\<lambda>d. d \<in> fst ` set (pct_change (close_series hist))) (map fst (pct_change spy))"
proof -
  let ?am = "market_aligned hist spy"
  have a: "beta (compute_risk_metrics hist None) = None"
    by (simp add: beta_field compute_beta_def)
  have b: "beta (compute_risk_metrics hist (Some spy)) = Some (Fin 1)" if "\<not> fgt (np_var ?am) 0"
    using that by (simp add: beta_field compute_beta_Some py_round_one)
  have c: "beta (compute_risk_metrics hist (Some spy)) = Some (Fin 1)"
    if "\<forall>y \<in> set ?am. y = c"
    using that by (intro b np_var_constant)
  have d: "beta (compute_risk_metrics hist (Some spy))
          = beta (compute_risk_metrics hist' (Some spy'))"
    if "stock_aligned hist spy = stock_aligned hist' spy'
        \<and> market_aligned hist spy = market_aligned hist' spy'"
    using that by (intro beta_of_aligned_samples) simp_all
  from a b c d aligned_dates [of "pct_change (close_series hist)" "pct_change spy"]
  show ?thesis by blast
qed

theorem C2_beta_witness:
  "market_aligned three_bars (close_series three_bars) = [1, 1]
   \<and> stock_aligned three_bars (close_series three_bars) = [1, 1]
   \<and> beta (compute_risk_metrics three_bars None) = None
   \<and> beta (compute_risk_metrics three_bars (Some (close_series three_bars))) = Some (Fin 1)
   \<and> map fst (aligned_market (pct_change (close_series three_bars))
                 (pct_change (close_series three_bars))) = [1, 2]"
proof -
  have m: "market_aligned three_bars (close_series three_bars) = [1, 1]"
    by (simp add: market_aligned_def aligned_market_def aligned_returns_def
        reindex_dropna_def three_bars_def close_series_def)
  have s: "stock_aligned three_bars (close_series three_bars) = [1, 1]"
    by (simp add: stock_aligned_def aligned_returns_def
        reindex_dropna_def three_bars_def close_series_def)
  have f: "filter (\<lambda>d. d \<in> fst ` set (pct_change (close_series three_bars)))
             (map fst (pct_change (close_series three_bars))) = [1, 2]"
    by (simp add: three_bars_def close_series_def)
  from m have k: "\<forall>y \<in> set (market_aligned three_bars (close_series three_bars)). y = 1"
    by simp
  note t = C2_beta [where hist = three_bars and spy = "close_series three_bars" and c = 1
      and hist' = three_bars and spy' = "close_series three_bars"]
  from t have n: "beta (compute_risk_metrics three_bars None) = None"
    by (rule conjunct1)
  from t k
  have b: "beta (compute_risk_metrics three_bars (Some (close_series three_bars))) = Some (Fin 1)"
    by blast
  from t have "map fst (aligned_market (pct_change (close_series three_bars))
                 (pct_change (close_series three_bars)))
       = filter (\<lambda>d. d \<in> fst ` set (pct_change (close_series three_bars)))
             (map fst (pct_change (close_series three_bars)))"
    by blast
  then have d: "map fst (aligned_market (pct_change (close_series three_bars))
                 (pct_change (close_series three_bars))) = [1, 2]"
    unfolding f .
  show ?thesis
    by (intro conjI m s n b d)
qed

section \<open>Volatility of a short history\<close>

lemma get_stock_summary_None_iff:
  "get_stock_summary ev tk per = None \<longleftrightarrow>
     yf_history ev tk per = None \<or> yf_info ev tk = None \<or> yf_history ev tk per = Some []"
  by (auto simp: get_stock_summary_def split: option.splits)

lemma pct_change_daily_returns:
  assumes "\<forall>p \<in> set (map snd s). p \<noteq> 0"
  shows "map snd (pct_change s) = daily_returns (map snd s)"
  using assms
proof (induction s rule: pct_change.induct)
  case (1 a b rest)
  then show ?case by (simp add: diff_divide_distrib)
qed simp_all

lemma length_daily_returns: "length (daily_returns ps) = length ps - 1"
  by (induction ps rule: daily_returns.induct) simp_all

lemma series_std_Fin: "2 \<le> length xs \<Longrightarrow> series_std xs = Fin (sample_std xs)"
  by (simp add: series_std_def sample_std_def of_nat_diff)

lemma volatility_short:
  assumes "length hist < 3"
  shows "volatility_annual (compute_risk_metrics hist spy) = NaN"
proof -
  have "length (map snd (pct_change (close_series hist))) < 2"
  proof (cases hist)
    case Nil
    then show ?thesis by (simp add: close_series_def)
  next
    case (Cons a as)
    note c1 = Cons
    show ?thesis
    proof (cases as)
      case Nil
      with c1 show ?thesis by (simp add: close_series_def)
    next
      case (Cons b bs)
      with c1 assms have "bs = []" by simp
      with c1 Cons show ?thesis by (simp add: close_series_def)
    qed
  qed
  then show ?thesis
    by (simp add: compute_risk_metrics_def Let_def annual_volatility_def series_std_def)
qed

text \<open>
  C4, as the claim states it, fails: a history of a single data point does not make
  the computation fail. The summary is returned, its volatility is not a number and its
  risk classification is High.
\<close>

theorem C4_single_point_counterexample:
  "map_option (\<lambda>s. (volatility_annual (risk s), risk_classification (risk s)))
     (get_stock_summary one_bar_env ''ACME'' ''1y'') = Some (NaN, ''High'')"
  by (simp add: get_stock_summary_def one_bar_env_def compute_risk_metrics_def Let_def
      close_series_def annual_volatility_def series_std_def risk_class_of_def)

text \<open>
  C4, amended: the computation never fails with an error for want of data. No summary
  is returned exactly when fetching the history or the info raises or the history is
  empty; every other history gets a summary. For a history of at least three data
  points with non-zero closing prices, the reported annualized volatility is the sample
  standard deviation of the daily percentage returns, times the root of 252, times
  100, rounded to one decimal.
\<close>

theorem C4_volatility:
  "(get_stock_summary ev tk per = None \<longleftrightarrow>
      yf_history ev tk per = None \<or> yf_info ev tk = None \<or> yf_history ev tk per = Some [])
   \<and> (3 \<le> length hist \<and> (\<forall>b \<in> set hist. bar_close b \<noteq> 0) \<longrightarrow>
        volatility_annual (compute_risk_metrics hist spy)
          = Fin (py_round (spec_volatility (map bar_close hist)) 1))"
proof -
  have "volatility_annual (compute_risk_metrics hist spy)
          = Fin (py_round (spec_volatility (map bar_close hist)) 1)"
    if len: "3 \<le> length hist" and nz: "\<forall>b \<in> set hist. bar_close b \<noteq> 0"
  proof -
    from nz have "\<forall>p \<in> set (map snd (close_series hist)). p \<noteq> 0"
      by (auto simp: close_series_def)
    then have r: "map snd (pct_change (close_series hist))
                    = daily_returns (map snd (close_series hist))"
      by (rule pct_change_daily_returns)
    have cs: "map snd (close_series hist) = map bar_close hist"
      by (simp add: close_series_def comp_def)
    from len have "2 \<le> length (daily_returns (map bar_close hist))"
      by (simp add: length_daily_returns)
    then have "series_std (daily_returns (map bar_close hist))
                 = Fin (sample_std (daily_returns (map bar_close hist)))"
      by (rule series_std_Fin)
    then show ?thesis
      by (simp add: compute_risk_metrics_def Let_def annual_volatility_def r cs
          spec_volatility_def)
  qed
  with get_stock_summary_None_iff [of ev tk per] show ?thesis by blast
qed

theorem C4_volatility_witness:
  "3 \<le> length three_bars
   \<and> list_all (\<lambda>b. bar_close b \<noteq> 0) three_bars
   \<and> spec_volatility (map bar_close three_bars) = 0
   \<and> volatility_annual (compute_risk_metrics three_bars None) = Fin 0"
proof -
  have l: "3 \<le> length three_bars"
    by (simp add: three_bars_def)
  have z: "list_all (\<lambda>b. bar_close b \<noteq> 0) three_bars"
    by (simp add: three_bars_def)
  have v: "spec_volatility (map bar_close three_bars) = 0"
    by (simp add: spec_volatility_def three_bars_def sample_std_def mean_def)
  have r: "py_round 0 1 = 0"
    by (simp add: py_round_def round_half_even_def)
  from z have z': "\<forall>b \<in> set three_bars. bar_close b \<noteq> 0"
    by (simp add: list_all_iff)
  from C4_volatility [of offline_env "''ACME''" "''1y''" three_bars None] l z'
  have "volatility_annual (compute_risk_metrics three_bars None)
          = Fin (py_round (spec_volatility (map bar_close three_bars)) 1)"
    by blast
  then have c: "volatility_annual (compute_risk_metrics three_bars None) = Fin 0"
    unfolding v r .
  show ?thesis
    by (intro conjI l z v c)
qed

section \<open>Trailing returns\<close>

lemma round_half_even_bound: "\<bar>of_int (round_half_even y) - y\<bar> \<le> 1 / 2"
  unfolding round_half_even_def Let_def by (auto simp: abs_le_iff)

lemma py_round_bound: "\<bar>py_round x 2 - x\<bar> \<le> 1 / 200"
proof -
  have "\<bar>of_int (round_half_even (x * 100)) - x * 100\<bar> \<le> 1 / 2"
    by (rule round_half_even_bound)
  then have "\<bar>(of_int (round_half_even (x * 100)) - x * 100) / 100\<bar> \<le> (1 / 2) / 100"
    unfolding abs_divide by (simp add: divide_right_mono)
  then show ?thesis
    by (simp add: py_round_def diff_divide_distrib)
qed

lemma iloc_neg_last: "xs \<noteq> [] \<Longrightarrow> iloc_neg xs 1 = last xs"
  by (simp add: iloc_neg_def last_conv_nth)

lemma period_return_spec:
  assumes "0 < n"
  shows "period_return (map bar_close hist) n =
     (if length hist < n then None
      else Some (Fin (py_round (trailing_return (map bar_close hist) n) 2)))"
proof (cases "length hist < n")
  case True
  then show ?thesis by (simp add: period_return_def)
next
  case False
  with assms have "map bar_close hist \<noteq> []" by auto
  then have "iloc_neg (map bar_close hist) 1 = last (map bar_close hist)"
    by (rule iloc_neg_last)
  with False show ?thesis
    by (simp add: period_return_def trailing_return_def iloc_neg_def)
qed

text \<open>
  C5, as the claim states it, fails in its equation: the field is rounded to two
  decimals. For 21 closing prices, the first 64 and the last 65, the window return is
  1.5625 and the 1-month field holds 1.56.
\<close>

theorem C5_rounded_return_counterexample:
  "length month_bars = 21
   \<and> return_1m (compute_performance month_bars None) = Some (Fin 1.56)
   \<and> trailing_return (map bar_close month_bars) 21 = 1.5625"
  by code_simp

text \<open>
  C5, amended: for each window N of 21, 63, 126 and 252 trading days, the trailing
  return field is null when the history has fewer than N data points; otherwise it is
  the window return (the last price over the price N places from the end, minus 1,
  times 100) rounded to two decimals, so within 0.005 of it. No shorter window is ever
  used.
\<close>

theorem C5_trailing_returns:
  "return_1m (compute_performance hist spy) =
     (if length hist < 21 then None
      else Some (Fin (py_round (trailing_return (map bar_close hist) 21) 2)))
   \<and> return_3m (compute_performance hist spy) =
     (if length hist < 63 then None
      else Some (Fin (py_round (trailing_return (map bar_close hist) 63) 2)))
   \<and> return_6m (compute_performance hist spy) =
     (if length hist < 126 then None
      else Some (Fin (py_round (trailing_return (map bar_close hist) 126) 2)))
   \<and> return_1y (compute_performance hist spy) =
     (if length hist < 252 then None
      else Some (Fin (py_round (trailing_return (map bar_close hist) 252) 2)))
   \<and> \<bar>py_round x 2 - x\<bar> \<le> 1 / 200"
  using period_return_spec [of 21 hist] period_return_spec [of 63 hist]
    period_return_spec [of 126 hist] period_return_spec [of 252 hist] py_round_bound [of x]
  by (simp add: compute_performance_def Let_def)

end
